theory Spec2Isabelle
  imports Main
begin

section \<open>Album API handlers of internal/api/album.go\<close>

text \<open>
  The handlers of \<^verbatim>\<open>internal/api/album.go\<close> are glue code: they call collaborators
  (token checks, database queries, the thumbnail generator, the memory cache, the file
  system) and write a response. The embedding makes every such call explicit.
  \<^item> The state a handler can change is a \<open>world\<close>: the files on disk, the memory cache
    and the trace of effects (responses, log lines, I/O calls) in the order they happen.
  \<^item> What a collaborator answers is an input of the run: the record \<open>env\<close> holds one
    function per collaborator whose code is not in \<^verbatim>\<open>album.go\<close>.
  \<^item> An error is a value: the message that \<^verbatim>\<open>err.Error()\<close> would return.
\<close>

subsection \<open>Data\<close>

type_synonym bytes = string
type_synonym error = string

text \<open>The three icons are package variables (byte slices) declared outside album.go.\<close>

datatype icon = brokenIconSvg | photoIconSvg | albumIconSvg

text \<open>
  What a file holds: plain bytes, or a zip archive given by its entries in the order they
  were written, each entry the alias (name inside the archive) and the path of the file
  copied under it.
\<close>

datatype content = Raw bytes | Zip "(string \<times> string) list"

datatype payload = Icon icon | Body content

record album =
  AlbumUID :: string
  AlbumSlug :: string
  AlbumTitle :: string
  AlbumFavorite :: bool

text \<open>entity.File, as returned by query.AlbumThumbByUID (fields used by the handler).\<close>

record entity_file =
  FileName :: string
  FileHash :: string

text \<open>One row of query.PhotoSearch (fields used by the handler).\<close>

record photo_result =
  PhotoUID :: string
  ResultFileName :: string

text \<open>form.PhotoSearch, form.AlbumSearch, form.Album, form.Selection: the fields used.\<close>

record photo_search =
  Album :: string
  Count :: int
  Offset :: int

record album_search =
  SearchQuery :: string
  SearchCount :: int
  SearchOffset :: int

record album_form =
  FormAlbumTitle :: string
  FormAlbumFavorite :: bool

record selection =
  Photos :: "string list"

record photo_album =
  PhotoAlbumPhotoUID :: string
  PhotoAlbumAlbumUID :: string

text \<open>thumb.Type: Width, Height and Options are read by the handler.\<close>

record thumb_type =
  Width :: int
  Height :: int
  Options :: "nat list"

text \<open>The arguments of thumb.FromFile and thumb.FromCache.\<close>

record thumb_args =
  SourceFile :: string
  SourceHash :: string
  CacheRoot :: string
  ThumbWidth :: int
  ThumbHeight :: int
  ThumbOptions :: "nat list"

record config =
  TempPath :: string
  OriginalsPath :: string
  ThumbPath :: string
  ThumbUncached :: bool

text \<open>The gin context, as far as the handlers read it.\<close>

record request =
  params :: "string \<rightharpoonup> string"
  queries :: "string \<rightharpoonup> string"
  headers :: "string \<rightharpoonup> string"
  body :: string

definition Param :: "request \<Rightarrow> string \<Rightarrow> string" where
  "Param c k = (case params c k of None \<Rightarrow> [] | Some v \<Rightarrow> v)"

definition Query :: "request \<Rightarrow> string \<Rightarrow> string" where
  "Query c k = (case queries c k of None \<Rightarrow> [] | Some v \<Rightarrow> v)"

datatype level = DebugLevel | InfoLevel | WarnLevel | ErrorLevel

datatype entity_event = EntityCreated | EntityUpdated | EntityDeleted

text \<open>JSON bodies. The Err... values are package variables declared outside album.go.\<close>

datatype json =
    ErrUnauthorized
  | ErrAlbumNotFound
  | ErrSaveFailed
  | ErrFormInvalid
  | ErrorH string
  | AlbumJSON album
  | AlbumResults "album list"
  | EmptyResponse
  | PhotosAdded album "photo_album list"
  | PhotosRemoved album "string list"

text \<open>
  The effects of a handler, in program order. \<open>Log\<close> keeps the format string of the
  source and its string arguments (durations and structs printed with \<^verbatim>\<open>%+v\<close> are left
  out). \<open>File\<close> is \<^verbatim>\<open>c.File(path)\<close> with what the file holds at that moment.
\<close>

datatype event =
    Data nat string payload
  | File string "content option"
  | AbortWithStatusJSON nat json
  | JSON nat json
  | Header string string
  | Log level string "string list"
  | CacheGet string
  | CacheSet string content int
  | Stat string
  | MkdirAll string
  | Create string
  | Remove string
  | AddFileToZip string string
  | ZipWriterClose string
  | FileClose string
  | ReadFile string
  | FromFile thumb_args
  | FromCache thumb_args
  | FileUpdate entity_file string bool
  | DbCreate album
  | DbSave album
  | DbDelete album
  | DbDeletePhotoAlbums string "string list"
  | FirstOrCreate photo_album
  | EventSuccess string
  | UpdateClientConfig
  | PublishAlbumEvent entity_event string

record world =
  files :: "string \<rightharpoonup> content"
  cache :: "string \<rightharpoonup> content \<times> int"
  trace :: "event list"

definition emit :: "event \<Rightarrow> world \<Rightarrow> world" where
  "emit e w = w\<lparr>trace := trace w @ [e]\<rparr>"

definition emits :: "event list \<Rightarrow> world \<Rightarrow> world" where
  "emits es w = w\<lparr>trace := trace w @ es\<rparr>"

subsection \<open>Collaborators\<close>

text \<open>
  One field per function, method, table or failure that album.go uses and does not
  define. The three checks \<open>Unauthorized\<close>, \<open>InvalidToken\<close> and \<open>InvalidDownloadToken\<close>
  are functions of the api package; \<open>txt_UcFirst\<close> and \<open>txt_Quote\<close> are pkg/txt; the
  \<open>query_\<close> fields are package query; \<open>thumb_Types\<close>, \<open>ExceedsLimit\<close>, \<open>OnDemand\<close>,
  \<open>thumb_FromFile\<close> and \<open>thumb_FromCache\<close> are package thumb (a successful call gives
  the path of the thumbnail and the bytes stored there); the \<open>bind_\<close> fields are gin's
  request binding; \<open>mkdir_error\<close>, \<open>create_error\<close>, \<open>remove_error\<close>, \<open>read_error\<close> and
  \<open>zip_error\<close> say which I/O call fails and with which message; \<open>entropy\<close> is what
  the random source gives to this request; \<open>now\<close> is the clock in nanoseconds.
  query.PhotoSelection returns photos, of which only the PhotoUID is used;
  \<open>db_Create\<close> is \<^verbatim>\<open>entity.Db().Create(m)\<close>: its error and the record as the database
  layer leaves it; \<open>SaveForm\<close> gives the album as \<^verbatim>\<open>m.SaveForm(f)\<close> leaves it.
\<close>

record env =
  Unauthorized :: "request \<Rightarrow> config \<Rightarrow> bool"
  InvalidToken :: "request \<Rightarrow> config \<Rightarrow> bool"
  InvalidDownloadToken :: "request \<Rightarrow> config \<Rightarrow> bool"
  txt_UcFirst :: "string \<Rightarrow> string"
  txt_Quote :: "string \<Rightarrow> string"
  query_AlbumByUID :: "string \<Rightarrow> error + album"
  query_AlbumSearch :: "album_search \<Rightarrow> error + album list"
  query_PhotoSearch :: "photo_search \<Rightarrow> error + photo_result list"
  query_AlbumThumbByUID :: "string \<Rightarrow> error + entity_file"
  query_PhotoSelection :: "selection \<Rightarrow> error + string list"
  ResultShareFileName :: "photo_result \<Rightarrow> string"
  FileShareFileName :: "entity_file \<Rightarrow> string"
  file_Update :: "entity_file \<Rightarrow> string \<Rightarrow> bool \<Rightarrow> error option"
  thumb_Types :: "string \<rightharpoonup> thumb_type"
  ExceedsLimit :: "thumb_type \<Rightarrow> bool"
  OnDemand :: "thumb_type \<Rightarrow> bool"
  thumb_FromFile :: "thumb_args \<Rightarrow> error + string \<times> content"
  thumb_FromCache :: "thumb_args \<Rightarrow> error + string \<times> content"
  read_error :: "string \<Rightarrow> error option"
  mkdir_error :: "string \<Rightarrow> error option"
  create_error :: "string \<Rightarrow> error option"
  remove_error :: "string \<Rightarrow> error option"
  zip_error :: "string \<Rightarrow> error option"
  entropy :: "nat list"
  now :: int
  defaultExpiration :: int
  bind_AlbumSearch :: "request \<Rightarrow> error + album_search"
  bind_Album :: "request \<Rightarrow> album_form \<Rightarrow> error + album_form"
  bind_Selection :: "request \<Rightarrow> error + selection"
  entity_NewAlbum :: "string \<Rightarrow> string \<Rightarrow> album"
  TypeDefault :: string
  db_Create :: "album \<Rightarrow> error option \<times> album"
  form_NewAlbum :: "album \<Rightarrow> error + album_form"
  SaveForm :: "album \<Rightarrow> album_form \<Rightarrow> error + album"
  FirstOrCreatePhotoAlbum :: "photo_album \<Rightarrow> photo_album option"

subsection \<open>Go standard library: path, strings, strconv\<close>

text \<open>
  \<^verbatim>\<open>path.Clean\<close>: the components between slashes are read from left to right; an empty
  component and \<open>.\<close> are dropped, \<open>..\<close> removes the component before it when there is
  one to remove, is kept in front of a relative path and is dropped at the root.
\<close>

fun split_from :: "string \<Rightarrow> string \<Rightarrow> string list" where
  "split_from cur [] = [cur]"
| "split_from cur (c # cs) =
     (if c = CHR ''/'' then cur # split_from [] cs else split_from (cur @ [c]) cs)"

definition split_slash :: "string \<Rightarrow> string list" where
  "split_slash p = split_from [] p"

fun join_slash :: "string list \<Rightarrow> string" where
  "join_slash [] = []"
| "join_slash [x] = x"
| "join_slash (x # y # ys) = x @ ''/'' @ join_slash (y # ys)"

definition clean_step :: "bool \<Rightarrow> string list \<Rightarrow> string \<Rightarrow> string list" where
  "clean_step rooted st el =
     (if el = [] \<or> el = ''.'' then st
      else if el = ''..'' then
        (if st \<noteq> [] \<and> last st \<noteq> ''..'' then butlast st
         else if \<not> rooted then st @ [''..'']
         else st)
      else st @ [el])"

definition path_Clean :: "string \<Rightarrow> string" where
  "path_Clean p =
     (if p = [] then ''.''
      else
        let rooted = (hd p = CHR ''/'');
            st = foldl (clean_step rooted) [] (split_slash p);
            out = (if rooted then ''/'' else []) @ join_slash st
        in if out = [] then ''.'' else out)"

text \<open>\<^verbatim>\<open>path.Join\<close> of two elements: empty elements are ignored, the rest is cleaned.\<close>

definition path_Join :: "string \<Rightarrow> string \<Rightarrow> string" where
  "path_Join a b =
     (if a = [] \<and> b = [] then []
      else if a = [] then path_Clean b
      else path_Clean (a @ ''/'' @ b))"

text \<open>
  \<^verbatim>\<open>strings.Title\<close> on ASCII text, which is what an album slug is: a letter that follows
  a separator (any ASCII character that is no letter, digit or underscore) or starts the
  string is put in upper case. Bytes above 127 are copied and do not separate.
\<close>

definition isSeparator :: "char \<Rightarrow> bool" where
  "isSeparator c =
     (let n = (of_char c :: nat) in
      if n \<le> 127 then
        \<not> ((48 \<le> n \<and> n \<le> 57) \<or> (97 \<le> n \<and> n \<le> 122) \<or> (65 \<le> n \<and> n \<le> 90) \<or> n = 95)
      else False)"

definition toTitle :: "char \<Rightarrow> char" where
  "toTitle c =
     (let n = (of_char c :: nat) in
      if 97 \<le> n \<and> n \<le> 122 then ''ABCDEFGHIJKLMNOPQRSTUVWXYZ'' ! (n - 97) else c)"

fun title_from :: "char \<Rightarrow> string \<Rightarrow> string" where
  "title_from prev [] = []"
| "title_from prev (r # rs) =
     (if isSeparator prev then toTitle r else r) # title_from r rs"

definition strings_Title :: "string \<Rightarrow> string" where
  "strings_Title s = title_from (CHR '' '') s"

text \<open>\<^verbatim>\<open>strconv.Itoa\<close>: the decimal digits, with a minus sign for a negative number.\<close>

function decimal :: "nat \<Rightarrow> string" where
  "decimal n =
     (if n < 10 then [''0123456789'' ! n]
      else decimal (n div 10) @ [''0123456789'' ! (n mod 10)])"
  by pat_completeness auto
termination
  by (relation "measure (\<lambda>n. n)") auto

declare decimal.simps [simp del]

definition strconv_Itoa :: "int \<Rightarrow> string" where
  "strconv_Itoa i = (if i < 0 then ''-'' @ decimal (nat (- i)) else decimal (nat i))"

text \<open>
  Modelled from the spec: rnd.Token is not in album.go. Section 4.6 of the spec says
  that token(length) is a short, URL-safe random identifier: here its characters are
  lower-case letters and digits chosen by the first \<open>length\<close> draws of the random source.
\<close>

definition token_alphabet :: string where
  "token_alphabet = ''0123456789abcdefghijklmnopqrstuvwxyz''"

definition rnd_Token :: "nat \<Rightarrow> nat list \<Rightarrow> string" where
  "rnd_Token n draws = map (\<lambda>k. token_alphabet ! (k mod 36)) (take n draws)"

text \<open>\<^verbatim>\<open>time.Hour\<close> in nanoseconds.\<close>

definition time_Hour :: int where
  "time_Hour = 3600000000000"

subsection \<open>Memory cache, file system, archive writer\<close>

text \<open>
  \<^verbatim>\<open>service.Cache()\<close> is a go-cache instance: an entry is a value and the time at which it
  expires (0: never); \<open>Get\<close> does not return an entry whose time has passed; \<open>Set\<close> with
  a positive duration stores the time \<open>now + d\<close>. One request sees one clock value.
\<close>

definition cache_Get :: "env \<Rightarrow> string \<Rightarrow> world \<Rightarrow> content option \<times> world" where
  "cache_Get env k w =
     (let w' = emit (CacheGet k) w in
      case cache w k of
        None \<Rightarrow> (None, w')
      | Some (v, e) \<Rightarrow> if e > 0 \<and> now env > e then (None, w') else (Some v, w'))"

definition cache_Set :: "env \<Rightarrow> string \<Rightarrow> content \<Rightarrow> int \<Rightarrow> world \<Rightarrow> world" where
  "cache_Set env k v d w =
     (let d' = (if d = 0 then defaultExpiration env else d);
          e = (if d' > 0 then now env + d' else 0)
      in emit (CacheSet k v d) (w\<lparr>cache := (cache w)(k \<mapsto> (v, e))\<rparr>))"

text \<open>
  Modelled from the spec: fs.FileExists (pkg/fs) is not in album.go. Section 4.5 of the
  spec: whether the source path exists on the filesystem.
\<close>

definition fs_FileExists :: "string \<Rightarrow> world \<Rightarrow> bool \<times> world" where
  "fs_FileExists p w = (files w p \<noteq> None, emit (Stat p) w)"

definition os_MkdirAll :: "env \<Rightarrow> string \<Rightarrow> world \<Rightarrow> error option \<times> world" where
  "os_MkdirAll env p w = (mkdir_error env p, emit (MkdirAll p) w)"

text \<open>
  \<^verbatim>\<open>os.Create\<close> makes the file or truncates it. The handler wraps it in a zip writer at
  once, so the new file is taken as an archive without entries; closing the writer and
  the file changes nothing in this view.
\<close>

definition os_Create :: "env \<Rightarrow> string \<Rightarrow> world \<Rightarrow> error option \<times> world" where
  "os_Create env p w =
     (case create_error env p of
        Some err \<Rightarrow> (Some err, emit (Create p) w)
      | None \<Rightarrow> (None, emit (Create p) (w\<lparr>files := (files w)(p \<mapsto> Zip [])\<rparr>)))"

definition os_Remove :: "env \<Rightarrow> string \<Rightarrow> world \<Rightarrow> error option \<times> world" where
  "os_Remove env p w =
     (case remove_error env p of
        Some err \<Rightarrow> (Some err, emit (Remove p) w)
      | None \<Rightarrow>
          if files w p = None
          then (Some (''remove '' @ p @ '': no such file or directory''), emit (Remove p) w)
          else (None, emit (Remove p) (w\<lparr>files := (files w)(p := None)\<rparr>)))"

definition ioutil_ReadFile :: "env \<Rightarrow> string \<Rightarrow> world \<Rightarrow> (error + content) \<times> world" where
  "ioutil_ReadFile env p w =
     (case read_error env p of
        Some err \<Rightarrow> (Inl err, emit (ReadFile p) w)
      | None \<Rightarrow>
          (case files w p of
             None \<Rightarrow> (Inl (''open '' @ p @ '': no such file or directory''), emit (ReadFile p) w)
           | Some d \<Rightarrow> (Inr d, emit (ReadFile p) w)))"

text \<open>\<^verbatim>\<open>c.File(path)\<close>: the file is sent as it is on disk at that moment.\<close>

definition c_File :: "string \<Rightarrow> world \<Rightarrow> world" where
  "c_File p w = emit (File p (files w p)) w"

text \<open>
  Modelled from the spec: addFileToZip is a function of the api package that is not in
  album.go. Section 4.5 of the spec: the source file is appended to the archive under
  its display alias; an I/O failure while appending is an error. The archive is the one
  being written at path \<open>z\<close>.
\<close>

definition addFileToZip :: "env \<Rightarrow> string \<Rightarrow> string \<Rightarrow> string \<Rightarrow> world \<Rightarrow> error option \<times> world" where
  "addFileToZip env z fileName fileAlias w =
     (case zip_error env fileName of
        Some err \<Rightarrow> (Some err, emit (AddFileToZip fileName fileAlias) w)
      | None \<Rightarrow>
          (case files w z of
             Some (Zip es) \<Rightarrow>
               (None, emit (AddFileToZip fileName fileAlias)
                        (w\<lparr>files := (files w)(z \<mapsto> Zip (es @ [(fileAlias, fileName)]))\<rparr>))
           | _ \<Rightarrow> (Some ''zip: write to closed file'', emit (AddFileToZip fileName fileAlias) w)))"

text \<open>
  Modelled from the spec: thumb.FromFile and thumb.FromCache are not in album.go.
  Section 4.3 of the spec: a successful call returns the path of the artifact, which then
  is a file on disk; what the call answers is given by \<open>env\<close>.
\<close>

definition call_FromFile :: "env \<Rightarrow> thumb_args \<Rightarrow> world \<Rightarrow> (error + string) \<times> world" where
  "call_FromFile env args w =
     (case thumb_FromFile env args of
        Inl err \<Rightarrow> (Inl err, emit (FromFile args) w)
      | Inr (p, d) \<Rightarrow> (Inr p, emit (FromFile args) (w\<lparr>files := (files w)(p \<mapsto> d)\<rparr>)))"

definition call_FromCache :: "env \<Rightarrow> thumb_args \<Rightarrow> world \<Rightarrow> (error + string) \<times> world" where
  "call_FromCache env args w =
     (case thumb_FromCache env args of
        Inl err \<Rightarrow> (Inl err, emit (FromCache args) w)
      | Inr (p, d) \<Rightarrow> (Inr p, emit (FromCache args) (w\<lparr>files := (files w)(p \<mapsto> d)\<rparr>)))"

text \<open>
  Modelled from the spec: report is a function of the api package that is not in
  album.go. Section 4.4 of the spec: a failure to persist the flag is logged and never
  propagated.
\<close>

definition report :: "string \<Rightarrow> error option \<Rightarrow> world \<Rightarrow> world" where
  "report prefix err w =
     (case err of None \<Rightarrow> w | Some e \<Rightarrow> emit (Log ErrorLevel ''%s: %s'' [prefix, e]) w)"

subsection \<open>GET /albums/:uid/dl\<close>

text \<open>Lines 362 to 365: the folder and the name of the temporary archive.\<close>

definition zipPath :: "config \<Rightarrow> string" where
  "zipPath conf = path_Join (TempPath conf) ''album''"

definition zipBaseName :: "album \<Rightarrow> string \<Rightarrow> string" where
  "zipBaseName a zipToken = strings_Title (AlbumSlug a) @ ''-'' @ zipToken @ ''.zip''"

definition zipFileName :: "config \<Rightarrow> album \<Rightarrow> string \<Rightarrow> string" where
  "zipFileName conf a zipToken = path_Join (zipPath conf) (zipBaseName a zipToken)"

text \<open>
  The two deferred calls (lines 381 and 384) run at every return after line 384, the
  writer first. Closing again what is closed gives an error that the handler ignores.
\<close>

definition deferred :: "string \<Rightarrow> world \<Rightarrow> world" where
  "deferred z w = emits [ZipWriterClose z, FileClose z] w"

text \<open>
  Lines 386 to 400, the loop over the photos. The result is \<open>False\<close> when the handler
  returned from inside the loop (line 394), \<open>True\<close> when the loop ran to its end.
  \<^verbatim>\<open>log.Error(err)\<close> is a \<open>Log\<close> with the text of the error and no argument.
\<close>

fun zip_loop :: "env \<Rightarrow> config \<Rightarrow> string \<Rightarrow> photo_result list \<Rightarrow> world \<Rightarrow> bool \<times> world" where
  "zip_loop env conf z [] w = (True, w)"
| "zip_loop env conf z (f # rest) w =
     (let fileName = path_Join (OriginalsPath conf) (ResultFileName f);
          fileAlias = ResultShareFileName env f
      in case fs_FileExists fileName w of
           (True, w1) \<Rightarrow>
             (case addFileToZip env z fileName fileAlias w1 of
                (Some err, w2) \<Rightarrow>
                  (False,
                   emits [Log ErrorLevel err [],
                          AbortWithStatusJSON 500 (ErrorH (txt_UcFirst env ''failed to create zip file''))] w2)
              | (None, w2) \<Rightarrow>
                  zip_loop env conf z rest
                    (emit (Log InfoLevel ''album: added %s as %s''
                             [txt_Quote env (ResultFileName f), txt_Quote env fileAlias]) w2))
         | (False, w1) \<Rightarrow>
             zip_loop env conf z rest
               (emit (Log ErrorLevel ''album: file %s is missing'' [txt_Quote env (ResultFileName f)]) w1))"

text \<open>Lines 402 to 418: after the loop.\<close>

definition serve_zip :: "env \<Rightarrow> string \<Rightarrow> string \<Rightarrow> world \<Rightarrow> world" where
  "serve_zip env base z w =
     (let w1 = emits [Log InfoLevel ''album: archive %s created in %s'' [txt_Quote env base],
                      ZipWriterClose z, FileClose z] w
      in case fs_FileExists z w1 of
           (False, w2) \<Rightarrow>
             emits [Log ErrorLevel ''could not find zip file: %s'' [z],
                    Data 404 ''image/svg+xml'' (Icon photoIconSvg)] w2
         | (True, w2) \<Rightarrow>
             (let w3 = emit (Header ''Content-Disposition'' (''attachment; filename='' @ base)) w2;
                  w4 = c_File z w3
              in case os_Remove env z w4 of
                   (Some err, w5) \<Rightarrow>
                     emit (Log ErrorLevel ''album: could not remove %s (%s)'' [txt_Quote env z, err]) w5
                 | (None, w5) \<Rightarrow> w5))"

text \<open>Lines 362 to 418: from the name of the archive to the end of the handler.\<close>

definition build_and_serve :: "env \<Rightarrow> config \<Rightarrow> album \<Rightarrow> photo_result list \<Rightarrow> world \<Rightarrow> world" where
  "build_and_serve env conf a p w =
     (let zipToken = rnd_Token 3 (entropy env);
          base = zipBaseName a zipToken;
          z = zipFileName conf a zipToken
      in case os_MkdirAll env (zipPath conf) w of
           (Some err, w1) \<Rightarrow>
             emits [Log ErrorLevel err [],
                    AbortWithStatusJSON 500 (ErrorH (txt_UcFirst env ''failed to create zip folder''))] w1
         | (None, w1) \<Rightarrow>
             (case os_Create env z w1 of
                (Some err, w2) \<Rightarrow>
                  emits [Log ErrorLevel err [],
                         AbortWithStatusJSON 500 (ErrorH (txt_UcFirst env err))] w2
              | (None, w2) \<Rightarrow>
                  (case zip_loop env conf z p w2 of
                     (False, w3) \<Rightarrow> deferred z w3
                   | (True, w3) \<Rightarrow> deferred z (serve_zip env base z w3))))"

definition DownloadAlbum :: "env \<Rightarrow> config \<Rightarrow> request \<Rightarrow> world \<Rightarrow> world" where
  "DownloadAlbum env conf c w =
     (if InvalidDownloadToken env c conf
      then emit (Data 403 ''image/svg+xml'' (Icon brokenIconSvg)) w
      else
        case query_AlbumByUID env (Param c ''uid'') of
          Inl err \<Rightarrow> emit (AbortWithStatusJSON 404 ErrAlbumNotFound) w
        | Inr a \<Rightarrow>
            (case query_PhotoSearch env \<lparr>Album = AlbumUID a, Count = 10000, Offset = 0\<rparr> of
               Inl err \<Rightarrow> emit (AbortWithStatusJSON 404 (ErrorH (txt_UcFirst env err))) w
             | Inr p \<Rightarrow> build_and_serve env conf a p w))"

subsection \<open>GET /api/v1/albums/:uid/t/:token/:type\<close>

text \<open>Lines 482 to 512: generate or find the thumbnail, read it, cache it, send it.\<close>

definition thumb_args_of :: "config \<Rightarrow> thumb_type \<Rightarrow> entity_file \<Rightarrow> string \<Rightarrow> thumb_args" where
  "thumb_args_of conf thumbType f fileName =
     \<lparr>SourceFile = fileName, SourceHash = FileHash f, CacheRoot = ThumbPath conf,
      ThumbWidth = Width thumbType, ThumbHeight = Height thumbType,
      ThumbOptions = Options thumbType\<rparr>"

definition make_thumbnail ::
  "env \<Rightarrow> config \<Rightarrow> thumb_type \<Rightarrow> entity_file \<Rightarrow> string \<Rightarrow> world \<Rightarrow> (error + string) \<times> world" where
  "make_thumbnail env conf thumbType f fileName w =
     (if ThumbUncached conf \<or> OnDemand env thumbType
      then call_FromFile env (thumb_args_of conf thumbType f fileName) w
      else call_FromCache env (thumb_args_of conf thumbType f fileName) w)"

definition deliver_thumbnail ::
  "env \<Rightarrow> config \<Rightarrow> request \<Rightarrow> thumb_type \<Rightarrow> string \<Rightarrow> entity_file \<Rightarrow> string \<Rightarrow> world \<Rightarrow> world" where
  "deliver_thumbnail env conf c thumbType cacheKey f fileName w =
     (case make_thumbnail env conf thumbType f fileName w of
        (Inl err, w1) \<Rightarrow>
          emits [Log ErrorLevel ''album: %s'' [err],
                 Data 200 ''image/svg+xml'' (Icon photoIconSvg)] w1
      | (Inr thumbnail, w1) \<Rightarrow>
          (let w2 = (if Query c ''download'' \<noteq> []
                     then emit (Header ''Content-Disposition''
                                  (''attachment; filename='' @ FileShareFileName env f)) w1
                     else w1)
           in case ioutil_ReadFile env thumbnail w2 of
                (Inl err, w3) \<Rightarrow>
                  emits [Log ErrorLevel ''album: %s'' [err],
                         Data 200 ''image/svg+xml'' (Icon albumIconSvg)] w3
              | (Inr thumbData, w3) \<Rightarrow>
                  emits [Log DebugLevel ''cached %s [%s]'' [cacheKey],
                         Data 200 ''image/jpeg'' (Body thumbData)]
                    (cache_Set env cacheKey thumbData time_Hour w3)))"

text \<open>Lines 455 to 480: the source file of the album's thumbnail.\<close>

definition thumbnail_source ::
  "env \<Rightarrow> config \<Rightarrow> request \<Rightarrow> thumb_type \<Rightarrow> string \<Rightarrow> string \<Rightarrow> world \<Rightarrow> world" where
  "thumbnail_source env conf c thumbType cacheKey uid w =
     (case query_AlbumThumbByUID env uid of
        Inl err \<Rightarrow>
          emits [Log DebugLevel ''album: no photos yet, using generic image for %s'' [uid],
                 Data 200 ''image/svg+xml'' (Icon albumIconSvg)] w
      | Inr f \<Rightarrow>
          (let fileName = path_Join (OriginalsPath conf) (FileName f) in
           case fs_FileExists fileName w of
             (False, w1) \<Rightarrow>
               report ''album'' (file_Update env f ''FileMissing'' True)
                 (emits [Log ErrorLevel ''album: could not find original for %s'' [fileName],
                         Data 200 ''image/svg+xml'' (Icon photoIconSvg),
                         Log WarnLevel ''album: %s is missing'' [txt_Quote env (FileName f)],
                         FileUpdate f ''FileMissing'' True] w1)
           | (True, w1) \<Rightarrow>
               if ExceedsLimit env thumbType \<and> Query c ''download'' = []
               then c_File fileName
                      (emit (Log DebugLevel
                               ''album: using original, thumbnail size exceeds limit (width %d, height %d)''
                               [strconv_Itoa (Width thumbType), strconv_Itoa (Height thumbType)]) w1)
               else deliver_thumbnail env conf c thumbType cacheKey f fileName w1))"

definition AlbumThumbnail :: "env \<Rightarrow> config \<Rightarrow> request \<Rightarrow> world \<Rightarrow> world" where
  "AlbumThumbnail env conf c w =
     (if InvalidToken env c conf
      then emit (Data 403 ''image/svg+xml'' (Icon brokenIconSvg)) w
      else
        let typeName = Param c ''type'';
            uid = Param c ''uid''
        in case thumb_Types env typeName of
             None \<Rightarrow>
               emits [Log ErrorLevel ''album: invalid thumb type %s'' [typeName],
                      Data 200 ''image/svg+xml'' (Icon photoIconSvg)] w
           | Some thumbType \<Rightarrow>
               (let cacheKey = ''album-thumbnail:'' @ uid @ '':'' @ typeName in
                case cache_Get env cacheKey w of
                  (Some cacheData, w1) \<Rightarrow>
                    emits [Log DebugLevel ''cache hit for %s [%s]'' [cacheKey],
                           Data 200 ''image/jpeg'' (Body cacheData)] w1
                | (None, w1) \<Rightarrow> thumbnail_source env conf c thumbType cacheKey uid w1))"

subsection \<open>The other album endpoints\<close>

text \<open>GET /api/v1/albums (lines 30 to 58).\<close>

definition GetAlbums :: "env \<Rightarrow> config \<Rightarrow> request \<Rightarrow> world \<Rightarrow> world" where
  "GetAlbums env conf c w =
     (if Unauthorized env c conf then emit (AbortWithStatusJSON 401 ErrUnauthorized) w
      else
        case bind_AlbumSearch env c of
          Inl err \<Rightarrow> emit (AbortWithStatusJSON 400 (ErrorH (txt_UcFirst env err))) w
        | Inr f \<Rightarrow>
            (case query_AlbumSearch env f of
               Inl err \<Rightarrow> emit (AbortWithStatusJSON 400 (ErrorH (txt_UcFirst env err))) w
             | Inr result \<Rightarrow>
                 emits [Header ''X-Limit'' (strconv_Itoa (SearchCount f)),
                        Header ''X-Offset'' (strconv_Itoa (SearchOffset f)),
                        JSON 200 (AlbumResults result)] w))"

text \<open>GET /api/v1/albums/:uid (lines 61 to 73).\<close>

definition GetAlbum :: "env \<Rightarrow> config \<Rightarrow> request \<Rightarrow> world \<Rightarrow> world" where
  "GetAlbum env conf c w =
     (let id = Param c ''uid'' in
      case query_AlbumByUID env id of
        Inl err \<Rightarrow> emit (AbortWithStatusJSON 404 ErrAlbumNotFound) w
      | Inr m \<Rightarrow> emit (JSON 200 (AlbumJSON m)) w)"

text \<open>POST /api/v1/albums (lines 76 to 109). The form starts as the zero value.\<close>

definition CreateAlbum :: "env \<Rightarrow> config \<Rightarrow> request \<Rightarrow> world \<Rightarrow> world" where
  "CreateAlbum env conf c w =
     (if Unauthorized env c conf then emit (AbortWithStatusJSON 401 ErrUnauthorized) w
      else
        case bind_Album env c \<lparr>FormAlbumTitle = [], FormAlbumFavorite = False\<rparr> of
          Inl err \<Rightarrow> emit (AbortWithStatusJSON 400 (ErrorH (txt_UcFirst env err))) w
        | Inr f \<Rightarrow>
            (let m = (entity_NewAlbum env (FormAlbumTitle f) (TypeDefault env))
                       \<lparr>AlbumFavorite := FormAlbumFavorite f\<rparr>;
                 w1 = emits [Log DebugLevel ''create album: %+v %+v'' [], DbCreate m] w
             in case db_Create env m of
                  (Some err, m') \<Rightarrow>
                    emits [Log ErrorLevel err [],
                           AbortWithStatusJSON 400
                             (ErrorH (txt_Quote env (AlbumTitle m') @ '' already exists''))] w1
                | (None, m') \<Rightarrow>
                    emits [EventSuccess ''album created'', UpdateClientConfig,
                           PublishAlbumEvent EntityCreated (AlbumUID m'),
                           JSON 200 (AlbumJSON m')] w1))"

text \<open>PUT /api/v1/albums/:uid (lines 112 to 155).\<close>

definition UpdateAlbum :: "env \<Rightarrow> config \<Rightarrow> request \<Rightarrow> world \<Rightarrow> world" where
  "UpdateAlbum env conf c w =
     (if Unauthorized env c conf then emit (AbortWithStatusJSON 401 ErrUnauthorized) w
      else
        let uid = Param c ''uid'' in
        case query_AlbumByUID env uid of
          Inl err \<Rightarrow> emit (AbortWithStatusJSON 404 ErrAlbumNotFound) w
        | Inr m \<Rightarrow>
            (case form_NewAlbum env m of
               Inl err \<Rightarrow>
                 emits [Log ErrorLevel err [], AbortWithStatusJSON 500 ErrSaveFailed] w
             | Inr f0 \<Rightarrow>
                 (case bind_Album env c f0 of
                    Inl err \<Rightarrow>
                      emits [Log ErrorLevel err [], AbortWithStatusJSON 400 ErrFormInvalid] w
                  | Inr f \<Rightarrow>
                      (case SaveForm env m f of
                         Inl err \<Rightarrow>
                           emits [Log ErrorLevel err [], AbortWithStatusJSON 500 ErrSaveFailed] w
                       | Inr m' \<Rightarrow>
                           emits [UpdateClientConfig, EventSuccess ''album saved'',
                                  PublishAlbumEvent EntityUpdated uid,
                                  JSON 200 (AlbumJSON m')] w))))"

text \<open>DELETE /api/v1/albums/:uid (lines 158 to 183).\<close>

definition DeleteAlbum :: "env \<Rightarrow> config \<Rightarrow> request \<Rightarrow> world \<Rightarrow> world" where
  "DeleteAlbum env conf c w =
     (if Unauthorized env c conf then emit (AbortWithStatusJSON 401 ErrUnauthorized) w
      else
        let id = Param c ''uid'' in
        case query_AlbumByUID env id of
          Inl err \<Rightarrow> emit (AbortWithStatusJSON 404 ErrAlbumNotFound) w
        | Inr m \<Rightarrow>
            emits [PublishAlbumEvent EntityDeleted id, DbDelete m, UpdateClientConfig,
                   EventSuccess (''album '' @ txt_Quote env (AlbumTitle m) @ '' deleted''),
                   JSON 200 (AlbumJSON m)] w)"

text \<open>POST and DELETE /api/v1/albums/:uid/like (lines 189 to 241).\<close>

definition LikeAlbum :: "env \<Rightarrow> config \<Rightarrow> request \<Rightarrow> world \<Rightarrow> world" where
  "LikeAlbum env conf c w =
     (if Unauthorized env c conf then emit (AbortWithStatusJSON 401 ErrUnauthorized) w
      else
        let id = Param c ''uid'' in
        case query_AlbumByUID env id of
          Inl err \<Rightarrow> emit (AbortWithStatusJSON 404 ErrAlbumNotFound) w
        | Inr album \<Rightarrow>
            emits [DbSave (album\<lparr>AlbumFavorite := True\<rparr>), UpdateClientConfig,
                   PublishAlbumEvent EntityUpdated id, JSON 200 EmptyResponse] w)"

definition DislikeAlbum :: "env \<Rightarrow> config \<Rightarrow> request \<Rightarrow> world \<Rightarrow> world" where
  "DislikeAlbum env conf c w =
     (if Unauthorized env c conf then emit (AbortWithStatusJSON 401 ErrUnauthorized) w
      else
        let id = Param c ''uid'' in
        case query_AlbumByUID env id of
          Inl err \<Rightarrow> emit (AbortWithStatusJSON 404 ErrAlbumNotFound) w
        | Inr album \<Rightarrow>
            emits [DbSave (album\<lparr>AlbumFavorite := False\<rparr>), UpdateClientConfig,
                   PublishAlbumEvent EntityUpdated id, JSON 200 EmptyResponse] w)"

text \<open>
  POST /api/v1/albums/:uid/photos (lines 244 to 294). The loop of lines 276 to 282 gives
  the links that entity.FirstOrCreatePhotoAlbum returned, and one effect per photo.
\<close>

definition entity_NewPhotoAlbum :: "string \<Rightarrow> string \<Rightarrow> photo_album" where
  "entity_NewPhotoAlbum photoUID albumUID =
     \<lparr>PhotoAlbumPhotoUID = photoUID, PhotoAlbumAlbumUID = albumUID\<rparr>"

fun add_photos :: "env \<Rightarrow> album \<Rightarrow> string list \<Rightarrow> photo_album list \<Rightarrow> world \<Rightarrow> photo_album list \<times> world" where
  "add_photos env a [] added w = (added, w)"
| "add_photos env a (p # rest) added w =
     (let link = entity_NewPhotoAlbum p (AlbumUID a);
          w1 = emit (FirstOrCreate link) w
      in case FirstOrCreatePhotoAlbum env link of
           Some val \<Rightarrow> add_photos env a rest (added @ [val]) w1
         | None \<Rightarrow> add_photos env a rest added w1)"

definition AddPhotosToAlbum :: "env \<Rightarrow> config \<Rightarrow> request \<Rightarrow> world \<Rightarrow> world" where
  "AddPhotosToAlbum env conf c w =
     (if Unauthorized env c conf then emit (AbortWithStatusJSON 401 ErrUnauthorized) w
      else
        case bind_Selection env c of
          Inl err \<Rightarrow> emit (AbortWithStatusJSON 400 (ErrorH (txt_UcFirst env err))) w
        | Inr f \<Rightarrow>
            (let uid = Param c ''uid'' in
             case query_AlbumByUID env uid of
               Inl err \<Rightarrow> emit (AbortWithStatusJSON 404 ErrAlbumNotFound) w
             | Inr a \<Rightarrow>
                 (case query_PhotoSelection env f of
                    Inl err \<Rightarrow>
                      emits [Log ErrorLevel ''album: %s'' [err],
                             AbortWithStatusJSON 400 (ErrorH (txt_UcFirst env err))] w
                  | Inr photos \<Rightarrow>
                      (case add_photos env a photos [] w of
                         (added, w1) \<Rightarrow>
                           emits [EventSuccess
                                    (if length added = 1
                                     then ''one photo added to '' @ txt_Quote env (AlbumTitle a)
                                     else strconv_Itoa (int (length added)) @ '' photos added to ''
                                            @ txt_Quote env (AlbumTitle a)),
                                  PublishAlbumEvent EntityUpdated (AlbumUID a),
                                  JSON 200 (PhotosAdded a added)] w1))))"

text \<open>DELETE /api/v1/albums/:uid/photos (lines 297 to 332).\<close>

definition RemovePhotosFromAlbum :: "env \<Rightarrow> config \<Rightarrow> request \<Rightarrow> world \<Rightarrow> world" where
  "RemovePhotosFromAlbum env conf c w =
     (if Unauthorized env c conf then emit (AbortWithStatusJSON 401 ErrUnauthorized) w
      else
        case bind_Selection env c of
          Inl err \<Rightarrow> emit (AbortWithStatusJSON 400 (ErrorH (txt_UcFirst env err))) w
        | Inr f \<Rightarrow>
            if length (Photos f) = 0
            then emits [Log ErrorLevel ''no photos selected'' [],
                        AbortWithStatusJSON 400 (ErrorH (txt_UcFirst env ''no photos selected''))] w
            else
              (case query_AlbumByUID env (Param c ''uid'') of
                 Inl err \<Rightarrow> emit (AbortWithStatusJSON 404 ErrAlbumNotFound) w
               | Inr a \<Rightarrow>
                   emits [DbDeletePhotoAlbums (AlbumUID a) (Photos f),
                          EventSuccess (''photos removed from '' @ AlbumTitle a),
                          PublishAlbumEvent EntityUpdated (AlbumUID a),
                          JSON 200 (PhotosRemoved a (Photos f))] w))"

subsection \<open>Vocabulary of the properties\<close>

text \<open>What a run added to the trace.\<close>

definition new_events :: "world \<Rightarrow> world \<Rightarrow> event list" where
  "new_events w w' = drop (length (trace w)) (trace w')"

text \<open>The events that write the response body, and the calls of the thumbnail generator.\<close>

definition is_response :: "event \<Rightarrow> bool" where
  "is_response e =
     (case e of
        Data s t d \<Rightarrow> True
      | File p d \<Rightarrow> True
      | AbortWithStatusJSON s j \<Rightarrow> True
      | JSON s j \<Rightarrow> True
      | _ \<Rightarrow> False)"

definition responses :: "event list \<Rightarrow> event list" where
  "responses es = filter is_response es"

definition is_generator :: "event \<Rightarrow> bool" where
  "is_generator e = (case e of FromFile a \<Rightarrow> True | FromCache a \<Rightarrow> True | _ \<Rightarrow> False)"

definition generator_calls :: "event list \<Rightarrow> event list" where
  "generator_calls es = filter is_generator es"



text \<open>
  The archive build in the words of the spec (section 4.5, step 3): the source path of an
  item, the items whose source exists, the entry written for an item, and what the loop
  does for one item.
\<close>

definition original_of :: "config \<Rightarrow> photo_result \<Rightarrow> string" where
  "original_of conf f = path_Join (OriginalsPath conf) (ResultFileName f)"

definition existing_items :: "config \<Rightarrow> world \<Rightarrow> photo_result list \<Rightarrow> photo_result list" where
  "existing_items conf w p = filter (\<lambda>f. files w (original_of conf f) \<noteq> None) p"

definition archive_entry :: "env \<Rightarrow> config \<Rightarrow> photo_result \<Rightarrow> string \<times> string" where
  "archive_entry env conf f = (ResultShareFileName env f, original_of conf f)"

definition item_trace :: "env \<Rightarrow> config \<Rightarrow> world \<Rightarrow> photo_result \<Rightarrow> event list" where
  "item_trace env conf w f =
     (if files w (original_of conf f) \<noteq> None
      then [Stat (original_of conf f),
            AddFileToZip (original_of conf f) (ResultShareFileName env f),
            Log InfoLevel ''album: added %s as %s''
              [txt_Quote env (ResultFileName f), txt_Quote env (ResultShareFileName env f)]]
      else [Stat (original_of conf f),
            Log ErrorLevel ''album: file %s is missing'' [txt_Quote env (ResultFileName f)]])"

text \<open>The key of a thumbnail in the memory cache (line 447).\<close>

definition cacheKey_of :: "request \<Rightarrow> string" where
  "cacheKey_of c = ''album-thumbnail:'' @ Param c ''uid'' @ '':'' @ Param c ''type''"

text \<open>The source file of an album's thumbnail (line 463).\<close>

definition source_of :: "config \<Rightarrow> entity_file \<Rightarrow> string" where
  "source_of conf f = path_Join (OriginalsPath conf) (FileName f)"

text \<open>
  Which generator the handler calls for a type (line 484), what that call answers, the
  event of the call, and the header that a download request gets (line 496).
\<close>

definition on_demand :: "env \<Rightarrow> config \<Rightarrow> thumb_type \<Rightarrow> bool" where
  "on_demand env conf thumbType = (ThumbUncached conf \<or> OnDemand env thumbType)"

definition generator_result :: "env \<Rightarrow> config \<Rightarrow> thumb_type \<Rightarrow> thumb_args \<Rightarrow> error + string \<times> content" where
  "generator_result env conf thumbType args =
     (if on_demand env conf thumbType then thumb_FromFile env args else thumb_FromCache env args)"

definition generator_event :: "env \<Rightarrow> config \<Rightarrow> thumb_type \<Rightarrow> thumb_args \<Rightarrow> event" where
  "generator_event env conf thumbType args =
     (if on_demand env conf thumbType then FromFile args else FromCache args)"

definition download_header :: "env \<Rightarrow> request \<Rightarrow> entity_file \<Rightarrow> event list" where
  "download_header env c f =
     (if Query c ''download'' \<noteq> []
      then [Header ''Content-Disposition'' (''attachment; filename='' @ FileShareFileName env f)]
      else [])"

subsection \<open>A concrete installation, used to run the handlers\<close>

definition conf0 :: config where
  "conf0 = \<lparr>TempPath = ''/tmp'', OriginalsPath = ''/originals'',
            ThumbPath = ''/cache'', ThumbUncached = False\<rparr>"

definition album0 :: album where
  "album0 = \<lparr>AlbumUID = ''a1'', AlbumSlug = ''summer'', AlbumTitle = ''Summer'',
             AlbumFavorite = False\<rparr>"

definition photo_a :: photo_result where
  "photo_a = \<lparr>PhotoUID = ''p1'', ResultFileName = ''a.jpg''\<rparr>"

definition photo_b :: photo_result where
  "photo_b = \<lparr>PhotoUID = ''p2'', ResultFileName = ''b.jpg''\<rparr>"

definition file_a :: entity_file where
  "file_a = \<lparr>FileName = ''a.jpg'', FileHash = ''h1''\<rparr>"

definition tile_500 :: thumb_type where
  "tile_500 = \<lparr>Width = 500, Height = 500, Options = []\<rparr>"

definition fit_7680 :: thumb_type where
  "fit_7680 = \<lparr>Width = 7680, Height = 4320, Options = []\<rparr>"

text \<open>
  Album \<open>a1\<close> holds the photos \<open>a.jpg\<close> and \<open>b.jpg\<close>, its thumbnail comes from \<open>a.jpg\<close>.
  No I/O call fails. The preview token is \<open>preview\<close>, the download token \<open>dl\<close>, the
  session token \<open>session\<close>.
\<close>

definition env0 :: env where
  "env0 =
     \<lparr>Unauthorized = (\<lambda>c conf. headers c ''X-Session-Token'' \<noteq> Some ''session''),
      InvalidToken = (\<lambda>c conf. Param c ''token'' \<noteq> ''preview''),
      InvalidDownloadToken = (\<lambda>c conf. Query c ''t'' \<noteq> ''dl''),
      txt_UcFirst = (\<lambda>s. s),
      txt_Quote = (\<lambda>s. s),
      query_AlbumByUID = (\<lambda>uid. if uid = ''a1'' then Inr album0 else Inl ''record not found''),
      query_AlbumSearch = (\<lambda>f. Inr [album0]),
      query_PhotoSearch = (\<lambda>f. if Album f = ''a1'' then Inr [photo_a, photo_b] else Inr []),
      query_AlbumThumbByUID = (\<lambda>uid. if uid = ''a1'' then Inr file_a else Inl ''record not found''),
      query_PhotoSelection = (\<lambda>f. Inr (Photos f)),
      ResultShareFileName = (\<lambda>f. PhotoUID f @ ''.jpg''),
      FileShareFileName = (\<lambda>f. FileHash f @ ''.jpg''),
      file_Update = (\<lambda>f k v. None),
      thumb_Types = [''tile_500'' \<mapsto> tile_500, ''fit_7680'' \<mapsto> fit_7680],
      ExceedsLimit = (\<lambda>t. Width t > 3840 \<or> Height t > 3840),
      OnDemand = (\<lambda>t. Width t > 2048),
      thumb_FromFile = (\<lambda>args. Inr (CacheRoot args @ ''/'' @ SourceHash args @ ''.jpg'', Raw ''thumb'')),
      thumb_FromCache = (\<lambda>args. Inr (CacheRoot args @ ''/'' @ SourceHash args @ ''.jpg'', Raw ''thumb'')),
      read_error = (\<lambda>p. None),
      mkdir_error = (\<lambda>p. None),
      create_error = (\<lambda>p. None),
      remove_error = (\<lambda>p. None),
      zip_error = (\<lambda>p. None),
      entropy = [11, 12, 13],
      now = 1000,
      defaultExpiration = 0,
      bind_AlbumSearch = (\<lambda>c. Inr \<lparr>SearchQuery = [], SearchCount = 24, SearchOffset = 0\<rparr>),
      bind_Album = (\<lambda>c f. Inr f),
      bind_Selection = (\<lambda>c. Inr \<lparr>Photos = [''p1'']\<rparr>),
      entity_NewAlbum = (\<lambda>t k. \<lparr>AlbumUID = ''a2'', AlbumSlug = t, AlbumTitle = t, AlbumFavorite = False\<rparr>),
      TypeDefault = ''album'',
      db_Create = (\<lambda>m. (None, m)),
      form_NewAlbum = (\<lambda>m. Inr \<lparr>FormAlbumTitle = AlbumTitle m, FormAlbumFavorite = AlbumFavorite m\<rparr>),
      SaveForm = (\<lambda>m f. Inr (m\<lparr>AlbumTitle := FormAlbumTitle f, AlbumFavorite := FormAlbumFavorite f\<rparr>)),
      FirstOrCreatePhotoAlbum = (\<lambda>l. Some l)\<rparr>"

text \<open>On disk there is \<open>a.jpg\<close>; \<open>b.jpg\<close> is missing. The cache is empty.\<close>

definition w0 :: world where
  "w0 = \<lparr>files = [''/originals/a.jpg'' \<mapsto> Raw ''original a''], cache = Map.empty, trace = []\<rparr>"

text \<open>A request that carries every token, and one that carries none.\<close>

definition good_request :: "string \<Rightarrow> string \<Rightarrow> request" where
  "good_request typeName download =
     \<lparr>params = [''uid'' \<mapsto> ''a1'', ''token'' \<mapsto> ''preview'', ''type'' \<mapsto> typeName],
      queries = [''t'' \<mapsto> ''dl'', ''download'' \<mapsto> download],
      headers = [''X-Session-Token'' \<mapsto> ''session''],
      body = []\<rparr>"

definition anonymous_request :: request where
  "anonymous_request =
     \<lparr>params = [''uid'' \<mapsto> ''a1'', ''token'' \<mapsto> ''guess'', ''type'' \<mapsto> ''tile_500''],
      queries = Map.empty, headers = Map.empty, body = []\<rparr>"

text \<open>The archive of album \<open>a1\<close> with the token of \<open>env0\<close>, and the disk once it is created.\<close>

definition zip0 :: string where
  "zip0 = ''/tmp/album/Summer-bcd.zip''"

definition w1 :: world where
  "w1 = w0\<lparr>files := (files w0)(zip0 \<mapsto> Zip [])\<rparr>"

text \<open>Two variants: the disk is full when \<open>a.jpg\<close> is appended; the album holds only \<open>b.jpg\<close>.\<close>

definition env_disk_full :: env where
  "env_disk_full =
     env0\<lparr>zip_error := (\<lambda>p. if p = ''/originals/a.jpg'' then Some ''no space left on device'' else None)\<rparr>"

definition env_all_missing :: env where
  "env_all_missing = env0\<lparr>query_PhotoSearch := (\<lambda>f. Inr [photo_b])\<rparr>"

text \<open>The world after a download request for the large type \<open>fit_7680\<close>.\<close>

definition w_after_download :: world where
  "w_after_download = AlbumThumbnail env0 conf0 (good_request ''fit_7680'' ''1'') w0"

text \<open>A disk without files, a cache that holds a thumbnail, and three failing collaborators.\<close>

definition w_no_files :: world where
  "w_no_files = \<lparr>files = Map.empty, cache = Map.empty, trace = []\<rparr>"

definition w_cached :: world where
  "w_cached = w0\<lparr>cache := [''album-thumbnail:a1:tile_500'' \<mapsto> (Raw ''cached'', 5000)]\<rparr>"




text \<open>What \<open>path_Clean\<close> puts in front of a last component that is extended by \<open>t\<close>.\<close>

definition clean_prefix :: "string \<Rightarrow> string" where
  "clean_prefix x =
     (let rooted = (hd x = CHR ''/'');
          st = foldl (clean_step rooted) [] (butlast (split_slash x))
      in (if rooted then ''/'' else []) @
         (if st = [] then last (split_slash x) else join_slash st @ ''/'' @ last (split_slash x)))"

text \<open>A second request, whose random draws differ from those of \<open>env0\<close>.\<close>

definition env_other_draw :: env where
  "env_other_draw = env0\<lparr>entropy := [47, 12, 13]\<rparr>"

section \<open>Properties\<close>

subsection \<open>Authorization comes first\<close>

text \<open>
  C5. A thumbnail request whose token is invalid, and a download request whose download
  token is invalid, return at once: the only effect is the response 403 with the broken
  icon. The files on disk and the memory cache are as before, and the trace has no cache
  read, no cache write, no file access and no call of the generator.
\<close>

theorem unauthorized_returns_before_any_work:
  "(InvalidToken env c conf \<longrightarrow>
      files (AlbumThumbnail env conf c w) = files w \<and>
      cache (AlbumThumbnail env conf c w) = cache w \<and>
      trace (AlbumThumbnail env conf c w) =
        trace w @ [Data 403 ''image/svg+xml'' (Icon brokenIconSvg)]) \<and>
   (InvalidDownloadToken env c conf \<longrightarrow>
      files (DownloadAlbum env conf c w) = files w \<and>
      cache (DownloadAlbum env conf c w) = cache w \<and>
      trace (DownloadAlbum env conf c w) =
        trace w @ [Data 403 ''image/svg+xml'' (Icon brokenIconSvg)])"
  by (simp add: AlbumThumbnail_def DownloadAlbum_def emit_def)

theorem unauthorized_returns_before_any_work_witness:
  "InvalidToken env0 anonymous_request conf0 \<and>
   InvalidDownloadToken env0 anonymous_request conf0 \<and>
   files (AlbumThumbnail env0 conf0 anonymous_request w0) = files w0 \<and>
   cache (AlbumThumbnail env0 conf0 anonymous_request w0) = cache w0 \<and>
   trace (AlbumThumbnail env0 conf0 anonymous_request w0) =
     [Data 403 ''image/svg+xml'' (Icon brokenIconSvg)] \<and>
   files (DownloadAlbum env0 conf0 anonymous_request w0) = files w0 \<and>
   cache (DownloadAlbum env0 conf0 anonymous_request w0) = cache w0 \<and>
   trace (DownloadAlbum env0 conf0 anonymous_request w0) =
     [Data 403 ''image/svg+xml'' (Icon brokenIconSvg)]"
proof -
  have t: "InvalidToken env0 anonymous_request conf0"
    by (simp add: env0_def anonymous_request_def Param_def)
  have d: "InvalidDownloadToken env0 anonymous_request conf0"
    by (simp add: env0_def anonymous_request_def Query_def)
  have e: "trace w0 = []"
    by (simp add: w0_def)
  from t d e unauthorized_returns_before_any_work [of env0 anonymous_request conf0 w0]
  show ?thesis by simp
qed

subsection \<open>The archive build\<close>

text \<open>The loop of lines 386 to 400 when no append fails, for any test of existence.\<close>

lemma zip_loop_run:
  "files w z = Some (Zip es) \<Longrightarrow>
   \<forall>f \<in> set p. present (original_of conf f) \<longrightarrow> zip_error env (original_of conf f) = None \<Longrightarrow>
   (\<And>q. present q = (files w q \<noteq> None)) \<Longrightarrow>
   zip_loop env conf z p w =
     (True,
      w\<lparr>files := (files w)(z \<mapsto> Zip (es @ map (archive_entry env conf)
                                               (filter (\<lambda>f. present (original_of conf f)) p))),
        trace := trace w @ concat (map (\<lambda>f.
          if present (original_of conf f)
          then [Stat (original_of conf f),
                AddFileToZip (original_of conf f) (ResultShareFileName env f),
                Log InfoLevel ''album: added %s as %s''
                  [txt_Quote env (ResultFileName f), txt_Quote env (ResultShareFileName env f)]]
          else [Stat (original_of conf f),
                Log ErrorLevel ''album: file %s is missing'' [txt_Quote env (ResultFileName f)]]) p)\<rparr>)"
proof (induction p arbitrary: w es)
  case Nil
  then show ?case by (simp add: fun_upd_idem)
next
  case (Cons f rest)
  show ?case
  proof (cases "present (original_of conf f)")
    case True
    let ?w1 = "emit (Log InfoLevel ''album: added %s as %s''
              [txt_Quote env (ResultFileName f), txt_Quote env (ResultShareFileName env f)])
         (emit (AddFileToZip (original_of conf f) (ResultShareFileName env f))
            ((emit (Stat (original_of conf f)) w)\<lparr>files := (files w)(z \<mapsto> Zip (es @ [archive_entry env conf f]))\<rparr>))"
    have ex: "files w (original_of conf f) \<noteq> None" using True Cons.prems(3) by simp
    have ze: "zip_error env (original_of conf f) = None" using Cons.prems(2) True by simp
    have f1: "files ?w1 z = Some (Zip (es @ [archive_entry env conf f]))" by (simp add: emit_def)
    have p1: "\<And>q. present q = (files ?w1 q \<noteq> None)" using Cons.prems(1,3) by (simp add: emit_def)
    have e1: "\<forall>f \<in> set rest. present (original_of conf f) \<longrightarrow> zip_error env (original_of conf f) = None"
      using Cons.prems(2) by simp
    have step: "zip_loop env conf z (f # rest) w = zip_loop env conf z rest ?w1"
      using ex ze Cons.prems(1)
      by (simp add: original_of_def fs_FileExists_def addFileToZip_def emit_def archive_entry_def Let_def)
    show ?thesis
      unfolding step Cons.IH [OF f1 e1 p1] using True by (simp add: emit_def fun_upd_def cong: if_cong)
  next
    case False
    let ?w1 = "emit (Log ErrorLevel ''album: file %s is missing'' [txt_Quote env (ResultFileName f)])
                 (emit (Stat (original_of conf f)) w)"
    have ex: "files w (original_of conf f) = None" using False Cons.prems(3) by simp
    have f1: "files ?w1 z = Some (Zip es)" using Cons.prems(1) by (simp add: emit_def)
    have p1: "\<And>q. present q = (files ?w1 q \<noteq> None)" using Cons.prems(3) by (simp add: emit_def)
    have e1: "\<forall>f \<in> set rest. present (original_of conf f) \<longrightarrow> zip_error env (original_of conf f) = None"
      using Cons.prems(2) by simp
    have step: "zip_loop env conf z (f # rest) w = zip_loop env conf z rest ?w1"
      using ex by (simp add: original_of_def fs_FileExists_def emit_def Let_def)
    show ?thesis
      unfolding step Cons.IH [OF f1 e1 p1] using False by (simp add: emit_def fun_upd_def cong: if_cong)
  qed
qed

text \<open>
  C7. An archive build over the items \<open>p\<close>, into the archive open at \<open>z\<close>, in which no
  append fails: the loop runs to its end (it does not abort); the archive gets one entry
  per item whose source file exists, under the item's alias, in input order; an item
  whose source file is missing is logged as missing and the loop goes on.
\<close>

theorem archive_build_keeps_input_order:
  assumes "files w z = Some (Zip es)"
    and "\<forall>f \<in> set p. files w (original_of conf f) \<noteq> None \<longrightarrow> zip_error env (original_of conf f) = None"
  shows "zip_loop env conf z p w =
     (True,
      w\<lparr>files := (files w)(z \<mapsto> Zip (es @ map (archive_entry env conf) (existing_items conf w p))),
        trace := trace w @ concat (map (item_trace env conf w) p)\<rparr>)"
proof -
  have eq1: "existing_items conf w p = filter (\<lambda>f. files w (original_of conf f) \<noteq> None) p"
    by (simp only: existing_items_def)
  have eq2: "map (item_trace env conf w) p = map (\<lambda>f.
          if files w (original_of conf f) \<noteq> None
          then [Stat (original_of conf f),
                AddFileToZip (original_of conf f) (ResultShareFileName env f),
                Log InfoLevel ''album: added %s as %s''
                  [txt_Quote env (ResultFileName f), txt_Quote env (ResultShareFileName env f)]]
          else [Stat (original_of conf f),
                Log ErrorLevel ''album: file %s is missing'' [txt_Quote env (ResultFileName f)]]) p"
    by (rule map_cong) (simp_all only: item_trace_def)
  show ?thesis
    unfolding eq1 eq2
    by (rule zip_loop_run [where present = "\<lambda>q. files w q \<noteq> None", OF assms(1)])
       (use assms(2) in simp_all)
qed

lemma original_a: "original_of conf0 photo_a = ''/originals/a.jpg''"
  by (simp add: original_of_def conf0_def photo_a_def path_Join_def path_Clean_def split_slash_def clean_step_def)

lemma original_b: "original_of conf0 photo_b = ''/originals/b.jpg''"
  by (simp add: original_of_def conf0_def photo_b_def path_Join_def path_Clean_def split_slash_def clean_step_def)

theorem archive_build_keeps_input_order_witness:
  "files w1 zip0 = Some (Zip []) \<and>
   zip_error env0 (original_of conf0 photo_a) = None \<and>
   zip_error env0 (original_of conf0 photo_b) = None \<and>
   zip_loop env0 conf0 zip0 [photo_b, photo_a, photo_b] w1 =
     (True,
      w1\<lparr>files := (files w1)(zip0 \<mapsto> Zip [(''p1.jpg'', ''/originals/a.jpg'')]),
         trace :=
           [Stat ''/originals/b.jpg'',
            Log ErrorLevel ''album: file %s is missing'' [''b.jpg''],
            Stat ''/originals/a.jpg'',
            AddFileToZip ''/originals/a.jpg'' ''p1.jpg'',
            Log InfoLevel ''album: added %s as %s'' [''a.jpg'', ''p1.jpg''],
            Stat ''/originals/b.jpg'',
            Log ErrorLevel ''album: file %s is missing'' [''b.jpg'']]\<rparr>)"
proof -
  have h1: "files w1 zip0 = Some (Zip [])"
    by (simp add: w1_def)
  have h2: "\<forall>f \<in> set [photo_b, photo_a, photo_b].
      files w1 (original_of conf0 f) \<noteq> None \<longrightarrow> zip_error env0 (original_of conf0 f) = None"
    by (simp add: env0_def)
  have e: "existing_items conf0 w1 [photo_b, photo_a, photo_b] = [photo_a]"
    by (simp add: existing_items_def original_a original_b w1_def w0_def zip0_def)
  have t: "concat (map (item_trace env0 conf0 w1) [photo_b, photo_a, photo_b]) =
           [Stat ''/originals/b.jpg'',
            Log ErrorLevel ''album: file %s is missing'' [''b.jpg''],
            Stat ''/originals/a.jpg'',
            AddFileToZip ''/originals/a.jpg'' ''p1.jpg'',
            Log InfoLevel ''album: added %s as %s'' [''a.jpg'', ''p1.jpg''],
            Stat ''/originals/b.jpg'',
            Log ErrorLevel ''album: file %s is missing'' [''b.jpg'']]"
    by (simp add: item_trace_def original_a [unfolded photo_a_def]
        original_b [unfolded photo_b_def] w1_def w0_def zip0_def env0_def
        photo_a_def photo_b_def)
  have a: "archive_entry env0 conf0 photo_a = (''p1.jpg'', ''/originals/a.jpg'')"
    by (simp add: archive_entry_def original_a [unfolded photo_a_def] env0_def photo_a_def)
  have n: "trace w1 = []"
    by (simp add: w1_def w0_def)
  have z: "zip_error env0 (original_of conf0 photo_a) = None"
    "zip_error env0 (original_of conf0 photo_b) = None"
    by (simp_all add: env0_def)
  show ?thesis
    using h1 z unfolding archive_build_keeps_input_order [OF h1 h2] e t
    by (simp add: a n)
qed

subsection \<open>Running the download handler\<close>

text \<open>The definitions that a concrete run unfolds.\<close>

lemmas eval_path = path_Join_def path_Clean_def split_slash_def clean_step_def
lemmas eval_zip_name = zipPath_def zipBaseName_def zipFileName_def strings_Title_def isSeparator_def
  toTitle_def rnd_Token_def token_alphabet_def
lemmas eval_download = DownloadAlbum_def build_and_serve_def serve_zip_def deferred_def
  os_MkdirAll_def os_Create_def os_Remove_def fs_FileExists_def addFileToZip_def c_File_def
  emit_def emits_def Let_def Param_def Query_def

lemma zip0_name: "zipFileName conf0 album0 (rnd_Token 3 [11, 12, 13]) = zip0"
  by (simp add: zip0_def conf0_def album0_def eval_zip_name eval_path)


subsection \<open>The temporary archive after the request\<close>

text \<open>
  Whenever the loop returns early, the temporary archive is still on disk after the
  deferred calls: the loop never removes it, and the deferred calls only close it.
\<close>

lemma zip_loop_keeps_archive:
  "files w z = Some d \<Longrightarrow> \<exists>d'. files (snd (zip_loop env conf z p w)) z = Some d'"
proof (induction p arbitrary: w d)
  case Nil
  then show ?case by simp
next
  case (Cons f rest)
  let ?n = "path_Join (OriginalsPath conf) (ResultFileName f)"
  let ?a = "ResultShareFileName env f"
  show ?case
  proof (cases "files w ?n")
    case None
    let ?w1 = "emit (Log ErrorLevel ''album: file %s is missing'' [txt_Quote env (ResultFileName f)])
                 (emit (Stat ?n) w)"
    have step: "zip_loop env conf z (f # rest) w = zip_loop env conf z rest ?w1"
      using None by (simp add: fs_FileExists_def Let_def)
    have "files ?w1 z = Some d"
      using Cons.prems by (simp add: emit_def)
    then show ?thesis
      unfolding step by (rule Cons.IH)
  next
    case (Some src)
    show ?thesis
    proof (cases "addFileToZip env z ?n ?a (emit (Stat ?n) w)")
      case (Pair r w2)
      have keep: "\<exists>d'. files w2 z = Some d'"
        using Pair Cons.prems
        by (auto simp: addFileToZip_def emit_def split: option.splits content.splits)
      show ?thesis
      proof (cases r)
        case None
        let ?w3 = "emit (Log InfoLevel ''album: added %s as %s''
                           [txt_Quote env (ResultFileName f), txt_Quote env ?a]) w2"
        have step: "zip_loop env conf z (f # rest) w = zip_loop env conf z rest ?w3"
          using Some Pair None by (simp add: fs_FileExists_def Let_def)
        from keep obtain d' where "files ?w3 z = Some d'"
          by (auto simp: emit_def)
        then show ?thesis
          unfolding step by (rule Cons.IH)
      next
        case (Some err)
        then show ?thesis
          using \<open>files w ?n = Some src\<close> Pair keep
          by (simp add: fs_FileExists_def Let_def emits_def)
      qed
    qed
  qed
qed

lemma aborted_build_leaves_archive:
  assumes "os_Create env z w1 = (None, w2)"
    and "zip_loop env conf z p w2 = (False, w3)"
  shows "files (deferred z w3) z \<noteq> None"
proof -
  have "files w2 z = Some (Zip [])"
    using assms(1) by (auto simp: os_Create_def emit_def split: option.splits)
  then have "\<exists>d'. files (snd (zip_loop env conf z p w2)) z = Some d'"
    by (rule zip_loop_keeps_archive)
  then show ?thesis
    by (simp add: assms(2) deferred_def emits_def)
qed

text \<open>
  C1. The run at which the claim fails: album \<open>a1\<close>, \<open>a.jpg\<close> exists, the disk is full
  when it is appended. The handler logs the error, answers 500 and returns from inside the
  loop (line 394); the deferred calls close the writer and the file; nothing removes the
  file, which is still on disk after the request. The same request without the failure
  serves the archive and removes it (line 416): after that run the file is gone.
\<close>

theorem aborted_build_keeps_partial_archive:
  "trace (DownloadAlbum env_disk_full conf0 (good_request ''tile_500'' []) w0) =
     [MkdirAll ''/tmp/album'',
      Create ''/tmp/album/Summer-bcd.zip'',
      Stat ''/originals/a.jpg'',
      AddFileToZip ''/originals/a.jpg'' ''p1.jpg'',
      Log ErrorLevel ''no space left on device'' [],
      AbortWithStatusJSON 500 (ErrorH ''failed to create zip file''),
      ZipWriterClose ''/tmp/album/Summer-bcd.zip'',
      FileClose ''/tmp/album/Summer-bcd.zip''] \<and>
   files (DownloadAlbum env_disk_full conf0 (good_request ''tile_500'' []) w0)
     ''/tmp/album/Summer-bcd.zip'' = Some (Zip []) \<and>
   trace (DownloadAlbum env0 conf0 (good_request ''tile_500'' []) w0) =
     [MkdirAll ''/tmp/album'',
      Create ''/tmp/album/Summer-bcd.zip'',
      Stat ''/originals/a.jpg'',
      AddFileToZip ''/originals/a.jpg'' ''p1.jpg'',
      Log InfoLevel ''album: added %s as %s'' [''a.jpg'', ''p1.jpg''],
      Stat ''/originals/b.jpg'',
      Log ErrorLevel ''album: file %s is missing'' [''b.jpg''],
      Log InfoLevel ''album: archive %s created in %s'' [''Summer-bcd.zip''],
      ZipWriterClose ''/tmp/album/Summer-bcd.zip'',
      FileClose ''/tmp/album/Summer-bcd.zip'',
      Stat ''/tmp/album/Summer-bcd.zip'',
      Header ''Content-Disposition'' ''attachment; filename=Summer-bcd.zip'',
      File ''/tmp/album/Summer-bcd.zip'' (Some (Zip [(''p1.jpg'', ''/originals/a.jpg'')])),
      Remove ''/tmp/album/Summer-bcd.zip'',
      ZipWriterClose ''/tmp/album/Summer-bcd.zip'',
      FileClose ''/tmp/album/Summer-bcd.zip''] \<and>
   files (DownloadAlbum env0 conf0 (good_request ''tile_500'' []) w0)
     ''/tmp/album/Summer-bcd.zip'' = None"
  by (simp add: env_disk_full_def env0_def conf0_def good_request_def w0_def album0_def
      photo_a_def photo_b_def eval_download eval_zip_name eval_path)

subsection \<open>An album whose files are all missing\<close>

text \<open>
  C2, as stated, fails: the album holds \<open>b.jpg\<close> only, which is missing. No file is
  archived, and the response is the zip file, not an icon.
\<close>

theorem all_missing_serves_zip_counterexample:
  "query_PhotoSearch env_all_missing \<lparr>Album = ''a1'', Count = 10000, Offset = 0\<rparr> = Inr [photo_b] \<and>
   existing_items conf0 w0 [photo_b] = [] \<and>
   responses (trace (DownloadAlbum env_all_missing conf0 (good_request ''tile_500'' []) w0)) =
     [File ''/tmp/album/Summer-bcd.zip'' (Some (Zip []))]"
  by (simp add: env_all_missing_def env0_def conf0_def good_request_def w0_def album0_def
      photo_a_def photo_b_def eval_download eval_zip_name eval_path existing_items_def
      original_of_def responses_def is_response_def)


lemma responses_append: "responses (xs @ ys) = responses xs @ responses ys"
  by (simp add: responses_def)

lemma new_events_append: "trace w' = trace w @ es \<Longrightarrow> new_events w w' = es"
  by (simp add: new_events_def)

lemma zip_loop_all_missing:
  assumes z: "files w z = Some (Zip es)"
    and miss: "\<forall>f \<in> set p. files w (original_of conf f) = None"
  shows "zip_loop env conf z p w =
     (True,
      w\<lparr>trace := trace w @ concat (map (\<lambda>f.
          [Stat (original_of conf f),
           Log ErrorLevel ''album: file %s is missing'' [txt_Quote env (ResultFileName f)]]) p)\<rparr>)"
proof -
  have f: "filter (\<lambda>f. files w (original_of conf f) \<noteq> None) p = []"
    using miss by (simp add: filter_empty_conv)
  have m: "map (\<lambda>f.
          if files w (original_of conf f) \<noteq> None
          then [Stat (original_of conf f),
                AddFileToZip (original_of conf f) (ResultShareFileName env f),
                Log InfoLevel ''album: added %s as %s''
                  [txt_Quote env (ResultFileName f), txt_Quote env (ResultShareFileName env f)]]
          else [Stat (original_of conf f),
                Log ErrorLevel ''album: file %s is missing'' [txt_Quote env (ResultFileName f)]]) p
      = map (\<lambda>f.
          [Stat (original_of conf f),
           Log ErrorLevel ''album: file %s is missing'' [txt_Quote env (ResultFileName f)]]) p"
    using miss by (intro map_cong) simp_all
  have "zip_loop env conf z p w =
     (True,
      w\<lparr>files := (files w)(z \<mapsto> Zip (es @ map (archive_entry env conf)
                                (filter (\<lambda>f. files w (original_of conf f) \<noteq> None) p))),
        trace := trace w @ concat (map (\<lambda>f.
          if files w (original_of conf f) \<noteq> None
          then [Stat (original_of conf f),
                AddFileToZip (original_of conf f) (ResultShareFileName env f),
                Log InfoLevel ''album: added %s as %s''
                  [txt_Quote env (ResultFileName f), txt_Quote env (ResultShareFileName env f)]]
          else [Stat (original_of conf f),
                Log ErrorLevel ''album: file %s is missing'' [txt_Quote env (ResultFileName f)]]) p)\<rparr>)"
    by (rule zip_loop_run [where present = "\<lambda>q. files w q \<noteq> None", OF z]) (use miss in simp_all)
  then show ?thesis
    unfolding f m using z by (simp add: fun_upd_idem)
qed

lemma responses_missing_items:
  "responses (concat (map (\<lambda>f. [Stat (g f), Log ErrorLevel m (h f)]) p)) = []"
  by (induction p) (simp_all add: responses_def is_response_def)


text \<open>
  C2, amended. A download request with a valid token, for an album that is found and
  whose photo search succeeds, with the temp folder and the temp file created, and every
  source file missing: the only response body is the temporary zip file, an archive
  without entries, sent as an attachment under the name of the archive. No icon is sent.
\<close>

theorem all_missing_serves_empty_zip:
  assumes tok: "\<not> InvalidDownloadToken env c conf"
    and alb: "query_AlbumByUID env (Param c ''uid'') = Inr a"
    and pho: "query_PhotoSearch env \<lparr>Album = AlbumUID a, Count = 10000, Offset = 0\<rparr> = Inr p"
    and mk: "mkdir_error env (zipPath conf) = None"
    and cr: "create_error env (zipFileName conf a (rnd_Token 3 (entropy env))) = None"
    and miss: "\<forall>f \<in> set p. files w (original_of conf f) = None \<and>
                 original_of conf f \<noteq> zipFileName conf a (rnd_Token 3 (entropy env))"
  shows "responses (new_events w (DownloadAlbum env conf c w)) =
           [File (zipFileName conf a (rnd_Token 3 (entropy env))) (Some (Zip []))] \<and>
         Header ''Content-Disposition''
           (''attachment; filename='' @ zipBaseName a (rnd_Token 3 (entropy env)))
           \<in> set (new_events w (DownloadAlbum env conf c w))"
proof -
  let ?z = "zipFileName conf a (rnd_Token 3 (entropy env))"
  let ?base = "zipBaseName a (rnd_Token 3 (entropy env))"
  let ?w2 = "w\<lparr>files := (files w)(?z \<mapsto> Zip []),
                trace := trace w @ [MkdirAll (zipPath conf), Create ?z]\<rparr>"
  let ?items = "concat (map (\<lambda>f.
          [Stat (original_of conf f),
           Log ErrorLevel ''album: file %s is missing'' [txt_Quote env (ResultFileName f)]]) p)"
  have z2: "files ?w2 ?z = Some (Zip [])"
    by (simp add: emit_def)
  have m2: "\<forall>f \<in> set p. files ?w2 (original_of conf f) = None"
    using miss by (simp add: emit_def)
  note loop = zip_loop_all_missing [OF z2 m2, of env]
  have run: "trace (DownloadAlbum env conf c w) =
      trace w @ [MkdirAll (zipPath conf), Create ?z] @ ?items @
      [Log InfoLevel ''album: archive %s created in %s'' [txt_Quote env ?base],
       ZipWriterClose ?z, FileClose ?z, Stat ?z,
       Header ''Content-Disposition'' (''attachment; filename='' @ ?base),
       File ?z (Some (Zip [])), Remove ?z] @
      (case remove_error env ?z of
         None \<Rightarrow> []
       | Some err \<Rightarrow> [Log ErrorLevel ''album: could not remove %s (%s)'' [txt_Quote env ?z, err]]) @
      [ZipWriterClose ?z, FileClose ?z]"
    using tok alb pho mk cr
    by (simp add: DownloadAlbum_def build_and_serve_def os_MkdirAll_def os_Create_def loop
        serve_zip_def deferred_def fs_FileExists_def c_File_def os_Remove_def emit_def emits_def
        Let_def split: option.splits)
  have ne: "new_events w (DownloadAlbum env conf c w) =
      [MkdirAll (zipPath conf), Create ?z] @ ?items @
      [Log InfoLevel ''album: archive %s created in %s'' [txt_Quote env ?base],
       ZipWriterClose ?z, FileClose ?z, Stat ?z,
       Header ''Content-Disposition'' (''attachment; filename='' @ ?base),
       File ?z (Some (Zip [])), Remove ?z] @
      (case remove_error env ?z of
         None \<Rightarrow> []
       | Some err \<Rightarrow> [Log ErrorLevel ''album: could not remove %s (%s)'' [txt_Quote env ?z, err]]) @
      [ZipWriterClose ?z, FileClose ?z]"
    by (rule new_events_append) (rule run)
  show ?thesis
    unfolding ne
    by (simp add: responses_append responses_missing_items)
       (simp add: responses_def is_response_def split: option.splits)
qed



theorem all_missing_serves_empty_zip_witness:
  "\<not> InvalidDownloadToken env_all_missing (good_request ''tile_500'' []) conf0 \<and>
   query_AlbumByUID env_all_missing (Param (good_request ''tile_500'' []) ''uid'') = Inr album0 \<and>
   query_PhotoSearch env_all_missing \<lparr>Album = AlbumUID album0, Count = 10000, Offset = 0\<rparr> =
     Inr [photo_b] \<and>
   mkdir_error env_all_missing (zipPath conf0) = None \<and>
   create_error env_all_missing zip0 = None \<and>
   files w0 (original_of conf0 photo_b) = None \<and>
   original_of conf0 photo_b \<noteq> zip0 \<and>
   responses (new_events w0 (DownloadAlbum env_all_missing conf0 (good_request ''tile_500'' []) w0)) =
     [File zip0 (Some (Zip []))] \<and>
   Header ''Content-Disposition'' ''attachment; filename=Summer-bcd.zip''
     \<in> set (new_events w0 (DownloadAlbum env_all_missing conf0 (good_request ''tile_500'' []) w0))"
proof -
  have e: "entropy env_all_missing = [11, 12, 13]"
    by (simp add: env_all_missing_def env0_def)
  have tok: "\<not> InvalidDownloadToken env_all_missing (good_request ''tile_500'' []) conf0"
    by (simp add: env_all_missing_def env0_def good_request_def Query_def)
  have alb: "query_AlbumByUID env_all_missing (Param (good_request ''tile_500'' []) ''uid'') = Inr album0"
    by (simp add: env_all_missing_def env0_def good_request_def Param_def)
  have pho: "query_PhotoSearch env_all_missing \<lparr>Album = AlbumUID album0, Count = 10000, Offset = 0\<rparr> =
     Inr [photo_b]"
    by (simp add: env_all_missing_def)
  have mk: "mkdir_error env_all_missing (zipPath conf0) = None"
    by (simp add: env_all_missing_def env0_def)
  have cr: "create_error env_all_missing (zipFileName conf0 album0 (rnd_Token 3 (entropy env_all_missing))) = None"
    by (simp add: env_all_missing_def env0_def)
  have miss: "\<forall>f \<in> set [photo_b]. files w0 (original_of conf0 f) = None \<and>
      original_of conf0 f \<noteq> zipFileName conf0 album0 (rnd_Token 3 (entropy env_all_missing))"
    by (simp add: e zip0_name original_b w0_def zip0_def)
  have b: "zipBaseName album0 (rnd_Token 3 [11, 12, 13]) = ''Summer-bcd.zip''"
    by (simp add: album0_def eval_zip_name)
  from all_missing_serves_empty_zip [OF tok alb pho mk cr miss] tok alb pho mk cr miss
  show ?thesis
    by (simp add: e zip0_name b)
qed

subsection \<open>The paths of the thumbnail handler\<close>

text \<open>
  One lemma per way through the handler: what the handler leaves behind, given the
  answers that lead that way.
\<close>

lemma cache_Get_eq:
  "fst (cache_Get env k w) = r \<Longrightarrow> cache_Get env k w = (r, emit (CacheGet k) w)"
  by (auto simp: cache_Get_def Let_def split: option.splits)


lemma make_thumbnail_done:
  "generator_result env conf thumbType (thumb_args_of conf thumbType f fileName) = Inr (p, d) \<Longrightarrow>
   make_thumbnail env conf thumbType f fileName w =
     (Inr p, emit (generator_event env conf thumbType (thumb_args_of conf thumbType f fileName))
               (w\<lparr>files := (files w)(p \<mapsto> d)\<rparr>))"
  by (cases "ThumbUncached conf \<or> OnDemand env thumbType")
     (simp_all add: make_thumbnail_def generator_result_def generator_event_def on_demand_def
        call_FromFile_def call_FromCache_def)



lemma deliver_done:
  assumes "generator_result env conf thumbType (thumb_args_of conf thumbType f fileName) = Inr (p, d)"
    and "read_error env p = None"
  shows "deliver_thumbnail env conf c thumbType cacheKey f fileName w =
     w\<lparr>files := (files w)(p \<mapsto> d),
       cache := (cache w)(cacheKey \<mapsto> (d, now env + time_Hour)),
       trace := trace w @
        [generator_event env conf thumbType (thumb_args_of conf thumbType f fileName)] @
        download_header env c f @
        [ReadFile p,
         CacheSet cacheKey d time_Hour,
         Log DebugLevel ''cached %s [%s]'' [cacheKey],
         Data 200 ''image/jpeg'' (Body d)]\<rparr>"
  using assms(2)
  by (simp add: deliver_thumbnail_def make_thumbnail_done [OF assms(1)] download_header_def
      ioutil_ReadFile_def cache_Set_def time_Hour_def emit_def emits_def Let_def)


lemmas eval_source = AlbumThumbnail_def thumbnail_source_def fs_FileExists_def c_File_def
  report_def emit_def emits_def Let_def cacheKey_of_def source_of_def

lemma thumbnail_forbidden:
  assumes "InvalidToken env c conf"
  shows "AlbumThumbnail env conf c w =
     w\<lparr>trace := trace w @ [Data 403 ''image/svg+xml'' (Icon brokenIconSvg)]\<rparr>"
  using assms by (simp add: AlbumThumbnail_def emit_def)


lemma thumbnail_cache_hit:
  assumes "\<not> InvalidToken env c conf"
    and "thumb_Types env (Param c ''type'') = Some thumbType"
    and "fst (cache_Get env (cacheKey_of c) w) = Some cacheData"
  shows "AlbumThumbnail env conf c w =
     w\<lparr>trace := trace w @
        [CacheGet (cacheKey_of c),
         Log DebugLevel ''cache hit for %s [%s]'' [cacheKey_of c],
         Data 200 ''image/jpeg'' (Body cacheData)]\<rparr>"
  using assms(1,2) cache_Get_eq [OF assms(3)] by (simp add: eval_source)

lemma thumbnail_no_photos:
  assumes "\<not> InvalidToken env c conf"
    and "thumb_Types env (Param c ''type'') = Some thumbType"
    and "fst (cache_Get env (cacheKey_of c) w) = None"
    and "query_AlbumThumbByUID env (Param c ''uid'') = Inl err"
  shows "AlbumThumbnail env conf c w =
     w\<lparr>trace := trace w @
        [CacheGet (cacheKey_of c),
         Log DebugLevel ''album: no photos yet, using generic image for %s'' [Param c ''uid''],
         Data 200 ''image/svg+xml'' (Icon albumIconSvg)]\<rparr>"
  using assms(1,2,4) cache_Get_eq [OF assms(3)] by (simp add: eval_source)

lemma thumbnail_source_missing:
  assumes "\<not> InvalidToken env c conf"
    and "thumb_Types env (Param c ''type'') = Some thumbType"
    and "fst (cache_Get env (cacheKey_of c) w) = None"
    and "query_AlbumThumbByUID env (Param c ''uid'') = Inr f"
    and "files w (source_of conf f) = None"
  shows "AlbumThumbnail env conf c w =
     w\<lparr>trace := trace w @
        [CacheGet (cacheKey_of c),
         Stat (source_of conf f),
         Log ErrorLevel ''album: could not find original for %s'' [source_of conf f],
         Data 200 ''image/svg+xml'' (Icon photoIconSvg),
         Log WarnLevel ''album: %s is missing'' [txt_Quote env (FileName f)],
         FileUpdate f ''FileMissing'' True] @
        (case file_Update env f ''FileMissing'' True of
           None \<Rightarrow> []
         | Some e \<Rightarrow> [Log ErrorLevel ''%s: %s'' [''album'', e]])\<rparr>"
  using assms(1,2,4,5) cache_Get_eq [OF assms(3)]
  by (simp add: eval_source split: option.splits)

lemma thumbnail_original:
  assumes "\<not> InvalidToken env c conf"
    and "thumb_Types env (Param c ''type'') = Some thumbType"
    and "fst (cache_Get env (cacheKey_of c) w) = None"
    and "query_AlbumThumbByUID env (Param c ''uid'') = Inr f"
    and "files w (source_of conf f) = Some d"
    and "ExceedsLimit env thumbType \<and> Query c ''download'' = []"
  shows "AlbumThumbnail env conf c w =
     w\<lparr>trace := trace w @
        [CacheGet (cacheKey_of c),
         Stat (source_of conf f),
         Log DebugLevel ''album: using original, thumbnail size exceeds limit (width %d, height %d)''
           [strconv_Itoa (Width thumbType), strconv_Itoa (Height thumbType)],
         File (source_of conf f) (Some d)]\<rparr>"
  using assms(1,2,4,5,6) cache_Get_eq [OF assms(3)]
  by (simp add: eval_source)

lemma thumbnail_to_deliver:
  assumes "\<not> InvalidToken env c conf"
    and "thumb_Types env (Param c ''type'') = Some thumbType"
    and "fst (cache_Get env (cacheKey_of c) w) = None"
    and "query_AlbumThumbByUID env (Param c ''uid'') = Inr f"
    and "files w (source_of conf f) = Some d"
    and "\<not> (ExceedsLimit env thumbType \<and> Query c ''download'' = [])"
  shows "AlbumThumbnail env conf c w =
     deliver_thumbnail env conf c thumbType (cacheKey_of c) f (source_of conf f)
       (w\<lparr>trace := trace w @ [CacheGet (cacheKey_of c), Stat (source_of conf f)]\<rparr>)"
  using assms(1,2,4,5,6) cache_Get_eq [OF assms(3)]
  by (auto simp: eval_source)



lemma thumbnail_done:
  assumes "\<not> InvalidToken env c conf"
    and "thumb_Types env (Param c ''type'') = Some thumbType"
    and "fst (cache_Get env (cacheKey_of c) w) = None"
    and "query_AlbumThumbByUID env (Param c ''uid'') = Inr f"
    and "files w (source_of conf f) = Some d"
    and "\<not> (ExceedsLimit env thumbType \<and> Query c ''download'' = [])"
    and "generator_result env conf thumbType (thumb_args_of conf thumbType f (source_of conf f)) =
           Inr (thumbnail, thumbData)"
    and "read_error env thumbnail = None"
  shows "AlbumThumbnail env conf c w =
     w\<lparr>files := (files w)(thumbnail \<mapsto> thumbData),
       cache := (cache w)(cacheKey_of c \<mapsto> (thumbData, now env + time_Hour)),
       trace := trace w @
        [CacheGet (cacheKey_of c),
         Stat (source_of conf f),
         generator_event env conf thumbType (thumb_args_of conf thumbType f (source_of conf f))] @
        download_header env c f @
        [ReadFile thumbnail,
         CacheSet (cacheKey_of c) thumbData time_Hour,
         Log DebugLevel ''cached %s [%s]'' [cacheKey_of c],
         Data 200 ''image/jpeg'' (Body thumbData)]\<rparr>"
  unfolding thumbnail_to_deliver [OF assms(1-6)] deliver_done [OF assms(7,8)]
  by simp

subsection \<open>Reading the trace\<close>

lemma is_response_simps:
  "is_response (Data x0a x0b x0c) = True"
  "is_response (File x1a x1b) = True"
  "is_response (AbortWithStatusJSON x2a x2b) = True"
  "is_response (JSON x3a x3b) = True"
  "is_response (Header x4a x4b) = False"
  "is_response (Log x5a x5b x5c) = False"
  "is_response (CacheGet x6a) = False"
  "is_response (CacheSet x7a x7b x7c) = False"
  "is_response (Stat x8a) = False"
  "is_response (MkdirAll x9a) = False"
  "is_response (Create x10a) = False"
  "is_response (Remove x11a) = False"
  "is_response (AddFileToZip x12a x12b) = False"
  "is_response (ZipWriterClose x13a) = False"
  "is_response (FileClose x14a) = False"
  "is_response (ReadFile x15a) = False"
  "is_response (FromFile x16a) = False"
  "is_response (FromCache x17a) = False"
  "is_response (FileUpdate x18a x18b x18c) = False"
  "is_response (DbCreate x19a) = False"
  "is_response (DbSave x20a) = False"
  "is_response (DbDelete x21a) = False"
  "is_response (DbDeletePhotoAlbums x22a x22b) = False"
  "is_response (FirstOrCreate x23a) = False"
  "is_response (EventSuccess x24a) = False"
  "is_response UpdateClientConfig = False"
  "is_response (PublishAlbumEvent x26a x26b) = False"
  by (simp_all add: is_response_def)

lemma is_generator_simps:
  "is_generator (Data x0a x0b x0c) = False"
  "is_generator (File x1a x1b) = False"
  "is_generator (AbortWithStatusJSON x2a x2b) = False"
  "is_generator (JSON x3a x3b) = False"
  "is_generator (Header x4a x4b) = False"
  "is_generator (Log x5a x5b x5c) = False"
  "is_generator (CacheGet x6a) = False"
  "is_generator (CacheSet x7a x7b x7c) = False"
  "is_generator (Stat x8a) = False"
  "is_generator (MkdirAll x9a) = False"
  "is_generator (Create x10a) = False"
  "is_generator (Remove x11a) = False"
  "is_generator (AddFileToZip x12a x12b) = False"
  "is_generator (ZipWriterClose x13a) = False"
  "is_generator (FileClose x14a) = False"
  "is_generator (ReadFile x15a) = False"
  "is_generator (FromFile x16a) = True"
  "is_generator (FromCache x17a) = True"
  "is_generator (FileUpdate x18a x18b x18c) = False"
  "is_generator (DbCreate x19a) = False"
  "is_generator (DbSave x20a) = False"
  "is_generator (DbDelete x21a) = False"
  "is_generator (DbDeletePhotoAlbums x22a x22b) = False"
  "is_generator (FirstOrCreate x23a) = False"
  "is_generator (EventSuccess x24a) = False"
  "is_generator UpdateClientConfig = False"
  "is_generator (PublishAlbumEvent x26a x26b) = False"
  by (simp_all add: is_generator_def)



lemma generator_calls_simps:
  "generator_calls [] = []"
  "generator_calls (e # es) = (if is_generator e then e # generator_calls es else generator_calls es)"
  "generator_calls (xs @ ys) = generator_calls xs @ generator_calls ys"
  by (simp_all add: generator_calls_def)

lemma responses_simps:
  "responses [] = []"
  "responses (e # es) = (if is_response e then e # responses es else responses es)"
  by (simp_all add: responses_def)



subsection \<open>Facts about the concrete installation\<close>

lemmas eval_thumbnail = AlbumThumbnail_def thumbnail_source_def deliver_thumbnail_def
  make_thumbnail_def thumb_args_of_def call_FromFile_def call_FromCache_def cache_Get_def
  cache_Set_def fs_FileExists_def ioutil_ReadFile_def c_File_def report_def emit_def emits_def
  Let_def Param_def Query_def

lemma source_a: "source_of conf0 file_a = ''/originals/a.jpg''"
  by (simp add: source_of_def conf0_def file_a_def eval_path)

lemma key_of_good_request:
  "cacheKey_of (good_request t d) = ''album-thumbnail:a1:'' @ t"
  by (simp add: cacheKey_of_def good_request_def Param_def)

lemma good_request_reads:
  "Param (good_request t d) ''type'' = t"
  "Param (good_request t d) ''uid'' = ''a1''"
  "Param (good_request t d) ''token'' = ''preview''"
  "Query (good_request t d) ''download'' = d"
  "Query (good_request t d) ''t'' = ''dl''"
  by (simp_all add: good_request_def Param_def Query_def)

lemma conf0_reads:
  "TempPath conf0 = ''/tmp''"
  "OriginalsPath conf0 = ''/originals''"
  "ThumbPath conf0 = ''/cache''"
  "ThumbUncached conf0 = False"
  by (simp_all add: conf0_def)

lemma type_reads:
  "Width tile_500 = 500" "Height tile_500 = 500" "Options tile_500 = []"
  "Width fit_7680 = 7680" "Height fit_7680 = 4320" "Options fit_7680 = []"
  by (simp_all add: tile_500_def fit_7680_def)

lemma args_a:
  "thumb_args_of conf0 t file_a ''/originals/a.jpg'' =
     \<lparr>SourceFile = ''/originals/a.jpg'', SourceHash = ''h1'', CacheRoot = ''/cache'',
      ThumbWidth = Width t, ThumbHeight = Height t, ThumbOptions = Options t\<rparr>"
  by (simp add: thumb_args_of_def conf0_def file_a_def)

lemma w_after_download_eq:
  "w_after_download =
     \<lparr>files = [''/originals/a.jpg'' \<mapsto> Raw ''original a'', ''/cache/h1.jpg'' \<mapsto> Raw ''thumb''],
      cache = [''album-thumbnail:a1:fit_7680'' \<mapsto> (Raw ''thumb'', 3600000001000)],
      trace =
        [CacheGet ''album-thumbnail:a1:fit_7680'',
         Stat ''/originals/a.jpg'',
         FromFile \<lparr>SourceFile = ''/originals/a.jpg'', SourceHash = ''h1'', CacheRoot = ''/cache'',
                   ThumbWidth = 7680, ThumbHeight = 4320, ThumbOptions = []\<rparr>,
         Header ''Content-Disposition'' ''attachment; filename=h1.jpg'',
         ReadFile ''/cache/h1.jpg'',
         CacheSet ''album-thumbnail:a1:fit_7680'' (Raw ''thumb'') 3600000000000,
         Log DebugLevel ''cached %s [%s]'' [''album-thumbnail:a1:fit_7680''],
         Data 200 ''image/jpeg'' (Body (Raw ''thumb''))]\<rparr>"
  by (simp add: w_after_download_def env0_def conf0_def good_request_def w0_def file_a_def
      fit_7680_def tile_500_def time_Hour_def eval_thumbnail eval_path)

subsection \<open>A source file that is missing\<close>

text \<open>
  C4. A thumbnail request that gets as far as resolving its source file (valid token,
  known type, no live cache entry, the album has a thumbnail file) and finds that the file
  does not exist: the handler answers 200 with the photo icon, calls the update of the
  \<open>FileMissing\<close> flag on the file record and, when that update fails, only logs the
  error. Nothing else happens: no generator call, no file read, no change of disk or cache.
\<close>

theorem missing_source_serves_icon_and_sets_flag:
  assumes "\<not> InvalidToken env c conf"
    and "thumb_Types env (Param c ''type'') = Some thumbType"
    and "fst (cache_Get env (cacheKey_of c) w) = None"
    and "query_AlbumThumbByUID env (Param c ''uid'') = Inr f"
    and "files w (source_of conf f) = None"
  shows "new_events w (AlbumThumbnail env conf c w) =
           [CacheGet (cacheKey_of c),
            Stat (source_of conf f),
            Log ErrorLevel ''album: could not find original for %s'' [source_of conf f],
            Data 200 ''image/svg+xml'' (Icon photoIconSvg),
            Log WarnLevel ''album: %s is missing'' [txt_Quote env (FileName f)],
            FileUpdate f ''FileMissing'' True] @
           (case file_Update env f ''FileMissing'' True of
              None \<Rightarrow> []
            | Some e \<Rightarrow> [Log ErrorLevel ''%s: %s'' [''album'', e]]) \<and>
         files (AlbumThumbnail env conf c w) = files w \<and>
         cache (AlbumThumbnail env conf c w) = cache w"
  unfolding thumbnail_source_missing [OF assms]
  by (simp add: new_events_def)

theorem missing_source_serves_icon_and_sets_flag_witness:
  "\<not> InvalidToken env0 (good_request ''tile_500'' []) conf0 \<and>
   thumb_Types env0 (Param (good_request ''tile_500'' []) ''type'') = Some tile_500 \<and>
   fst (cache_Get env0 (cacheKey_of (good_request ''tile_500'' [])) w_no_files) = None \<and>
   query_AlbumThumbByUID env0 (Param (good_request ''tile_500'' []) ''uid'') = Inr file_a \<and>
   files w_no_files (source_of conf0 file_a) = None \<and>
   new_events w_no_files (AlbumThumbnail env0 conf0 (good_request ''tile_500'' []) w_no_files) =
     [CacheGet ''album-thumbnail:a1:tile_500'',
      Stat ''/originals/a.jpg'',
      Log ErrorLevel ''album: could not find original for %s'' [''/originals/a.jpg''],
      Data 200 ''image/svg+xml'' (Icon photoIconSvg),
      Log WarnLevel ''album: %s is missing'' [''a.jpg''],
      FileUpdate file_a ''FileMissing'' True] \<and>
   files (AlbumThumbnail env0 conf0 (good_request ''tile_500'' []) w_no_files) = Map.empty \<and>
   cache (AlbumThumbnail env0 conf0 (good_request ''tile_500'' []) w_no_files) = Map.empty"
proof -
  have h1: "\<not> InvalidToken env0 (good_request ''tile_500'' []) conf0"
    by (simp add: env0_def good_request_reads)
  have h2: "thumb_Types env0 (Param (good_request ''tile_500'' []) ''type'') = Some tile_500"
    by (simp add: env0_def good_request_reads)
  have h3: "fst (cache_Get env0 (cacheKey_of (good_request ''tile_500'' [])) w_no_files) = None"
    by (simp add: cache_Get_def w_no_files_def)
  have h4: "query_AlbumThumbByUID env0 (Param (good_request ''tile_500'' []) ''uid'') = Inr file_a"
    by (simp add: env0_def good_request_reads)
  have h5: "files w_no_files (source_of conf0 file_a) = None"
    by (simp add: w_no_files_def)
  have u: "file_Update env0 file_a ''FileMissing'' True = None"
    by (simp add: env0_def)
  have q: "txt_Quote env0 (FileName file_a) = ''a.jpg''"
    by (simp add: env0_def file_a_def)
  have e: "files w_no_files = Map.empty" "cache w_no_files = Map.empty"
    by (simp_all add: w_no_files_def)
  from missing_source_serves_icon_and_sets_flag [OF h1 h2 h3 h4 h5] h1 h2 h3 h4 h5
  show ?thesis
    by (simp add: u q e source_a key_of_good_request)
qed

subsection \<open>The memory cache\<close>

text \<open>
  C6. A thumbnail request with a valid token and a known type. If the memory cache holds
  an entry for the key made of the album uid and the type name, and the entry has not
  expired, the handler sends the cached bytes as \<open>image/jpeg\<close> and does nothing else:
  no file access, no generator call, disk and cache unchanged. If the cache has no entry,
  the source file exists, the size limit does not apply, the generator succeeds and the
  thumbnail is read, then the bytes read are stored under the key with the duration
  \<open>time_Hour\<close>, so that the entry expires one hour after \<open>now\<close>, and are sent.
\<close>

theorem thumbnail_cache_hit_and_fill:
  assumes "\<not> InvalidToken env c conf"
    and "thumb_Types env (Param c ''type'') = Some thumbType"
  shows "(cache w (cacheKey_of c) = Some (cacheData, e) \<and> \<not> (e > 0 \<and> now env > e) \<longrightarrow>
            new_events w (AlbumThumbnail env conf c w) =
              [CacheGet (cacheKey_of c),
               Log DebugLevel ''cache hit for %s [%s]'' [cacheKey_of c],
               Data 200 ''image/jpeg'' (Body cacheData)] \<and>
            files (AlbumThumbnail env conf c w) = files w \<and>
            cache (AlbumThumbnail env conf c w) = cache w) \<and>
         (fst (cache_Get env (cacheKey_of c) w) = None \<and>
          query_AlbumThumbByUID env (Param c ''uid'') = Inr f \<and>
          files w (source_of conf f) = Some d \<and>
          \<not> (ExceedsLimit env thumbType \<and> Query c ''download'' = []) \<and>
          generator_result env conf thumbType (thumb_args_of conf thumbType f (source_of conf f)) =
            Inr (thumbnail, thumbData) \<and>
          read_error env thumbnail = None \<longrightarrow>
            cache (AlbumThumbnail env conf c w) =
              (cache w)(cacheKey_of c \<mapsto> (thumbData, now env + time_Hour)) \<and>
            new_events w (AlbumThumbnail env conf c w) =
              [CacheGet (cacheKey_of c),
               Stat (source_of conf f),
               generator_event env conf thumbType (thumb_args_of conf thumbType f (source_of conf f))] @
              download_header env c f @
              [ReadFile thumbnail,
               CacheSet (cacheKey_of c) thumbData time_Hour,
               Log DebugLevel ''cached %s [%s]'' [cacheKey_of c],
               Data 200 ''image/jpeg'' (Body thumbData)])"
proof (intro conjI impI)
  assume hit: "cache w (cacheKey_of c) = Some (cacheData, e) \<and> \<not> (e > 0 \<and> now env > e)"
  then have g: "fst (cache_Get env (cacheKey_of c) w) = Some cacheData"
    by (auto simp: cache_Get_def Let_def)
  show "new_events w (AlbumThumbnail env conf c w) =
              [CacheGet (cacheKey_of c),
               Log DebugLevel ''cache hit for %s [%s]'' [cacheKey_of c],
               Data 200 ''image/jpeg'' (Body cacheData)]"
    and "files (AlbumThumbnail env conf c w) = files w"
    and "cache (AlbumThumbnail env conf c w) = cache w"
    unfolding thumbnail_cache_hit [OF assms g] by (simp_all add: new_events_def)
next
  assume miss: "fst (cache_Get env (cacheKey_of c) w) = None \<and>
          query_AlbumThumbByUID env (Param c ''uid'') = Inr f \<and>
          files w (source_of conf f) = Some d \<and>
          \<not> (ExceedsLimit env thumbType \<and> Query c ''download'' = []) \<and>
          generator_result env conf thumbType (thumb_args_of conf thumbType f (source_of conf f)) =
            Inr (thumbnail, thumbData) \<and>
          read_error env thumbnail = None"
  then have run: "AlbumThumbnail env conf c w =
     w\<lparr>files := (files w)(thumbnail \<mapsto> thumbData),
       cache := (cache w)(cacheKey_of c \<mapsto> (thumbData, now env + time_Hour)),
       trace := trace w @
        [CacheGet (cacheKey_of c),
         Stat (source_of conf f),
         generator_event env conf thumbType (thumb_args_of conf thumbType f (source_of conf f))] @
        download_header env c f @
        [ReadFile thumbnail,
         CacheSet (cacheKey_of c) thumbData time_Hour,
         Log DebugLevel ''cached %s [%s]'' [cacheKey_of c],
         Data 200 ''image/jpeg'' (Body thumbData)]\<rparr>"
    using assms by (intro thumbnail_done) simp_all
  show "cache (AlbumThumbnail env conf c w) =
              (cache w)(cacheKey_of c \<mapsto> (thumbData, now env + time_Hour))"
    and "new_events w (AlbumThumbnail env conf c w) =
              [CacheGet (cacheKey_of c),
               Stat (source_of conf f),
               generator_event env conf thumbType (thumb_args_of conf thumbType f (source_of conf f))] @
              download_header env c f @
              [ReadFile thumbnail,
               CacheSet (cacheKey_of c) thumbData time_Hour,
               Log DebugLevel ''cached %s [%s]'' [cacheKey_of c],
               Data 200 ''image/jpeg'' (Body thumbData)]"
    unfolding run by (simp_all add: new_events_def)
qed

theorem thumbnail_cache_hit_and_fill_witness:
  "\<not> InvalidToken env0 (good_request ''tile_500'' []) conf0 \<and>
   thumb_Types env0 (Param (good_request ''tile_500'' []) ''type'') = Some tile_500 \<and>
   cache w_cached (cacheKey_of (good_request ''tile_500'' [])) = Some (Raw ''cached'', 5000) \<and>
   \<not> (5000 > (0::int) \<and> now env0 > 5000) \<and>
   new_events w_cached (AlbumThumbnail env0 conf0 (good_request ''tile_500'' []) w_cached) =
     [CacheGet ''album-thumbnail:a1:tile_500'',
      Log DebugLevel ''cache hit for %s [%s]'' [''album-thumbnail:a1:tile_500''],
      Data 200 ''image/jpeg'' (Body (Raw ''cached''))] \<and>
   files (AlbumThumbnail env0 conf0 (good_request ''tile_500'' []) w_cached) = files w_cached \<and>
   cache (AlbumThumbnail env0 conf0 (good_request ''tile_500'' []) w_cached) = cache w_cached \<and>
   fst (cache_Get env0 (cacheKey_of (good_request ''tile_500'' [])) w0) = None \<and>
   query_AlbumThumbByUID env0 (Param (good_request ''tile_500'' []) ''uid'') = Inr file_a \<and>
   files w0 (source_of conf0 file_a) = Some (Raw ''original a'') \<and>
   \<not> (ExceedsLimit env0 tile_500 \<and> Query (good_request ''tile_500'' []) ''download'' = []) \<and>
   generator_result env0 conf0 tile_500 (thumb_args_of conf0 tile_500 file_a (source_of conf0 file_a)) =
     Inr (''/cache/h1.jpg'', Raw ''thumb'') \<and>
   read_error env0 ''/cache/h1.jpg'' = None \<and>
   cache (AlbumThumbnail env0 conf0 (good_request ''tile_500'' []) w0) =
     [''album-thumbnail:a1:tile_500'' \<mapsto> (Raw ''thumb'', 1000 + 3600000000000)] \<and>
   new_events w0 (AlbumThumbnail env0 conf0 (good_request ''tile_500'' []) w0) =
     [CacheGet ''album-thumbnail:a1:tile_500'',
      Stat ''/originals/a.jpg'',
      FromCache \<lparr>SourceFile = ''/originals/a.jpg'', SourceHash = ''h1'', CacheRoot = ''/cache'',
                 ThumbWidth = 500, ThumbHeight = 500, ThumbOptions = []\<rparr>,
      ReadFile ''/cache/h1.jpg'',
      CacheSet ''album-thumbnail:a1:tile_500'' (Raw ''thumb'') 3600000000000,
      Log DebugLevel ''cached %s [%s]'' [''album-thumbnail:a1:tile_500''],
      Data 200 ''image/jpeg'' (Body (Raw ''thumb''))]"
proof -
  have h1: "\<not> InvalidToken env0 (good_request ''tile_500'' []) conf0"
    by (simp add: env0_def good_request_reads)
  have h2: "thumb_Types env0 (Param (good_request ''tile_500'' []) ''type'') = Some tile_500"
    by (simp add: env0_def good_request_reads)
  have hit: "cache w_cached (cacheKey_of (good_request ''tile_500'' [])) = Some (Raw ''cached'', 5000) \<and>
     \<not> (5000 > (0::int) \<and> now env0 > 5000)"
    by (simp add: w_cached_def key_of_good_request env0_def)
  have miss: "fst (cache_Get env0 (cacheKey_of (good_request ''tile_500'' [])) w0) = None \<and>
     query_AlbumThumbByUID env0 (Param (good_request ''tile_500'' []) ''uid'') = Inr file_a \<and>
     files w0 (source_of conf0 file_a) = Some (Raw ''original a'') \<and>
     \<not> (ExceedsLimit env0 tile_500 \<and> Query (good_request ''tile_500'' []) ''download'' = []) \<and>
     generator_result env0 conf0 tile_500 (thumb_args_of conf0 tile_500 file_a (source_of conf0 file_a)) =
       Inr (''/cache/h1.jpg'', Raw ''thumb'') \<and>
     read_error env0 ''/cache/h1.jpg'' = None"
    by (simp add: cache_Get_def w0_def env0_def good_request_reads source_a args_a
        generator_result_def on_demand_def conf0_reads type_reads)
  have ev: "generator_event env0 conf0 tile_500 (thumb_args_of conf0 tile_500 file_a ''/originals/a.jpg'') =
      FromCache \<lparr>SourceFile = ''/originals/a.jpg'', SourceHash = ''h1'', CacheRoot = ''/cache'',
                 ThumbWidth = 500, ThumbHeight = 500, ThumbOptions = []\<rparr>"
    by (simp add: generator_event_def on_demand_def env0_def conf0_reads type_reads args_a)
  have c0: "cache w0 = Map.empty" "now env0 = 1000"
    by (simp_all add: w0_def env0_def)
  from thumbnail_cache_hit_and_fill [OF h1 h2, where w = w_cached and cacheData = "Raw ''cached''"
         and e = 5000]
       thumbnail_cache_hit_and_fill [OF h1 h2, where w = w0 and f = file_a
         and d = "Raw ''original a''" and thumbnail = "''/cache/h1.jpg''"
         and thumbData = "Raw ''thumb''"]
       h1 h2 hit miss
  show ?thesis
    by (simp add: key_of_good_request source_a ev c0 time_Hour_def download_header_def
        good_request_reads)
qed

subsection \<open>Status codes of the thumbnail handler\<close>




subsection \<open>Types that exceed the size limit\<close>

text \<open>
  C3, as stated, fails. The type \<open>fit_7680\<close> exceeds the limit. After a download request
  for it has filled the memory cache (\<open>w_after_download\<close>), the same request without
  the download flag has a valid token and an existing source file, and is answered with
  the cached thumbnail, not with the original file.
\<close>

theorem oversized_type_cache_hit_counterexample:
  "\<not> InvalidToken env0 (good_request ''fit_7680'' []) conf0 \<and>
   thumb_Types env0 (Param (good_request ''fit_7680'' []) ''type'') = Some fit_7680 \<and>
   ExceedsLimit env0 fit_7680 \<and>
   Query (good_request ''fit_7680'' []) ''download'' = [] \<and>
   files w_after_download ''/originals/a.jpg'' = Some (Raw ''original a'') \<and>
   new_events w_after_download
     (AlbumThumbnail env0 conf0 (good_request ''fit_7680'' []) w_after_download) =
     [CacheGet ''album-thumbnail:a1:fit_7680'',
      Log DebugLevel ''cache hit for %s [%s]'' [''album-thumbnail:a1:fit_7680''],
      Data 200 ''image/jpeg'' (Body (Raw ''thumb''))]"
  by (simp add: w_after_download_eq env0_def conf0_def good_request_def file_a_def
      fit_7680_def tile_500_def time_Hour_def eval_thumbnail eval_path new_events_def)

text \<open>
  C3, amended. For a thumbnail request whose type exceeds the limit and whose download
  flag is not set, the handler never calls the generator. It sends the original file as
  it is when the token is valid, the memory cache has no live entry for the key, the album
  has a thumbnail file and that file exists; when the cache has a live entry it sends the
  cached bytes.
\<close>

theorem oversized_type_never_calls_generator:
  assumes ty: "thumb_Types env (Param c ''type'') = Some thumbType"
    and big: "ExceedsLimit env thumbType"
    and nodl: "Query c ''download'' = []"
  shows "generator_calls (new_events w (AlbumThumbnail env conf c w)) = [] \<and>
         (\<not> InvalidToken env c conf \<and>
          fst (cache_Get env (cacheKey_of c) w) = None \<and>
          query_AlbumThumbByUID env (Param c ''uid'') = Inr f \<and>
          files w (source_of conf f) = Some d \<longrightarrow>
            new_events w (AlbumThumbnail env conf c w) =
              [CacheGet (cacheKey_of c),
               Stat (source_of conf f),
               Log DebugLevel
                 ''album: using original, thumbnail size exceeds limit (width %d, height %d)''
                 [strconv_Itoa (Width thumbType), strconv_Itoa (Height thumbType)],
               File (source_of conf f) (Some d)]) \<and>
         (\<not> InvalidToken env c conf \<and>
          fst (cache_Get env (cacheKey_of c) w) = Some cacheData \<longrightarrow>
            responses (new_events w (AlbumThumbnail env conf c w)) =
              [Data 200 ''image/jpeg'' (Body cacheData)])"
proof (intro conjI impI)
  show "generator_calls (new_events w (AlbumThumbnail env conf c w)) = []"
  proof (cases "InvalidToken env c conf")
    case True
    then show ?thesis
      by (simp add: thumbnail_forbidden new_events_def generator_calls_simps is_generator_simps)
  next
    case False
    note tok = False
    show ?thesis
    proof (cases "fst (cache_Get env (cacheKey_of c) w)")
      case (Some cacheData)
      show ?thesis
        unfolding thumbnail_cache_hit [OF tok ty Some]
        by (simp add: new_events_def generator_calls_simps is_generator_simps)
    next
      case None
      note miss = None
      show ?thesis
      proof (cases "query_AlbumThumbByUID env (Param c ''uid'')")
        case (Inl err)
        show ?thesis
          unfolding thumbnail_no_photos [OF tok ty miss Inl]
          by (simp add: new_events_def generator_calls_simps is_generator_simps)
      next
        case (Inr g)
        note src = Inr
        show ?thesis
        proof (cases "files w (source_of conf g)")
          case None
          show ?thesis
            unfolding thumbnail_source_missing [OF tok ty miss src None]
            by (simp add: new_events_def generator_calls_simps is_generator_simps
                split: option.splits)
        next
          case (Some d')
          from big nodl have lim: "ExceedsLimit env thumbType \<and> Query c ''download'' = []"
            by simp
          show ?thesis
            unfolding thumbnail_original [OF tok ty miss src Some lim]
            by (simp add: new_events_def generator_calls_simps is_generator_simps)
        qed
      qed
    qed
  qed
next
  assume h: "\<not> InvalidToken env c conf \<and>
          fst (cache_Get env (cacheKey_of c) w) = None \<and>
          query_AlbumThumbByUID env (Param c ''uid'') = Inr f \<and>
          files w (source_of conf f) = Some d"
  have "AlbumThumbnail env conf c w =
     w\<lparr>trace := trace w @
        [CacheGet (cacheKey_of c),
         Stat (source_of conf f),
         Log DebugLevel ''album: using original, thumbnail size exceeds limit (width %d, height %d)''
           [strconv_Itoa (Width thumbType), strconv_Itoa (Height thumbType)],
         File (source_of conf f) (Some d)]\<rparr>"
    by (rule thumbnail_original) (use h ty big nodl in simp_all)
  then show "new_events w (AlbumThumbnail env conf c w) =
              [CacheGet (cacheKey_of c),
               Stat (source_of conf f),
               Log DebugLevel
                 ''album: using original, thumbnail size exceeds limit (width %d, height %d)''
                 [strconv_Itoa (Width thumbType), strconv_Itoa (Height thumbType)],
               File (source_of conf f) (Some d)]"
    by (simp add: new_events_def)
next
  assume h: "\<not> InvalidToken env c conf \<and>
          fst (cache_Get env (cacheKey_of c) w) = Some cacheData"
  have "AlbumThumbnail env conf c w =
     w\<lparr>trace := trace w @
        [CacheGet (cacheKey_of c),
         Log DebugLevel ''cache hit for %s [%s]'' [cacheKey_of c],
         Data 200 ''image/jpeg'' (Body cacheData)]\<rparr>"
    by (rule thumbnail_cache_hit) (use h ty in simp_all)
  then show "responses (new_events w (AlbumThumbnail env conf c w)) =
              [Data 200 ''image/jpeg'' (Body cacheData)]"
    by (simp add: new_events_def responses_simps is_response_simps)
qed

theorem oversized_type_never_calls_generator_witness:
  "thumb_Types env0 (Param (good_request ''fit_7680'' []) ''type'') = Some fit_7680 \<and>
   ExceedsLimit env0 fit_7680 \<and>
   Query (good_request ''fit_7680'' []) ''download'' = [] \<and>
   \<not> InvalidToken env0 (good_request ''fit_7680'' []) conf0 \<and>
   fst (cache_Get env0 (cacheKey_of (good_request ''fit_7680'' [])) w0) = None \<and>
   query_AlbumThumbByUID env0 (Param (good_request ''fit_7680'' []) ''uid'') = Inr file_a \<and>
   files w0 (source_of conf0 file_a) = Some (Raw ''original a'') \<and>
   generator_calls (new_events w0 (AlbumThumbnail env0 conf0 (good_request ''fit_7680'' []) w0)) = [] \<and>
   new_events w0 (AlbumThumbnail env0 conf0 (good_request ''fit_7680'' []) w0) =
     [CacheGet ''album-thumbnail:a1:fit_7680'',
      Stat ''/originals/a.jpg'',
      Log DebugLevel ''album: using original, thumbnail size exceeds limit (width %d, height %d)''
        [''7680'', ''4320''],
      File ''/originals/a.jpg'' (Some (Raw ''original a''))] \<and>
   fst (cache_Get env0 (cacheKey_of (good_request ''fit_7680'' [])) w_after_download) =
     Some (Raw ''thumb'') \<and>
   responses (new_events w_after_download
       (AlbumThumbnail env0 conf0 (good_request ''fit_7680'' []) w_after_download)) =
     [Data 200 ''image/jpeg'' (Body (Raw ''thumb''))]"
proof -
  have ty: "thumb_Types env0 (Param (good_request ''fit_7680'' []) ''type'') = Some fit_7680"
    by (simp add: env0_def good_request_reads)
  have big: "ExceedsLimit env0 fit_7680"
    by (simp add: env0_def type_reads)
  have nodl: "Query (good_request ''fit_7680'' []) ''download'' = []"
    by (simp add: good_request_reads)
  have orig: "\<not> InvalidToken env0 (good_request ''fit_7680'' []) conf0 \<and>
      fst (cache_Get env0 (cacheKey_of (good_request ''fit_7680'' [])) w0) = None \<and>
      query_AlbumThumbByUID env0 (Param (good_request ''fit_7680'' []) ''uid'') = Inr file_a \<and>
      files w0 (source_of conf0 file_a) = Some (Raw ''original a'')"
    by (simp add: env0_def good_request_reads cache_Get_def w0_def source_a)
  have hit: "\<not> InvalidToken env0 (good_request ''fit_7680'' []) conf0 \<and>
      fst (cache_Get env0 (cacheKey_of (good_request ''fit_7680'' [])) w_after_download) =
        Some (Raw ''thumb'')"
    by (simp add: env0_def good_request_reads cache_Get_def w_after_download_eq
        key_of_good_request)
  have n: "strconv_Itoa (Width fit_7680) = ''7680''" "strconv_Itoa (Height fit_7680) = ''4320''"
    by (simp_all add: type_reads strconv_Itoa_def decimal.simps)
  from oversized_type_never_calls_generator [OF ty big nodl, where w = w0 and conf = conf0
         and f = file_a and d = "Raw ''original a''"]
       oversized_type_never_calls_generator [OF ty big nodl, where w = w_after_download
         and conf = conf0 and cacheData = "Raw ''thumb''"]
       ty big nodl orig hit
  show ?thesis
    by (simp add: n key_of_good_request source_a generator_calls_simps is_generator_simps)
qed

subsection \<open>The name of the temporary archive\<close>

lemma split_from_nonempty: "split_from cur x \<noteq> []"
  by (induction x arbitrary: cur) auto

lemma split_from_plain:
  "CHR ''/'' \<notin> set t \<Longrightarrow> split_from cur t = [cur @ t]"
  by (induction t arbitrary: cur) auto

lemma split_from_append:
  "CHR ''/'' \<notin> set t \<Longrightarrow>
   split_from cur (x @ t) = butlast (split_from cur x) @ [last (split_from cur x) @ t]"
proof (induction x arbitrary: cur)
  case Nil
  then show ?case by (simp add: split_from_plain)
next
  case (Cons c x)
  then show ?case by (simp add: split_from_nonempty)
qed

lemma join_slash_snoc:
  "join_slash (st @ [el]) = (if st = [] then el else join_slash st @ ''/'' @ el)"
  by (induction st rule: join_slash.induct) auto

lemma clean_step_plain:
  "3 \<le> length el \<Longrightarrow> clean_step rooted st el = st @ [el]"
  by (auto simp: clean_step_def)

lemma path_Clean_append:
  assumes "x \<noteq> []" and "CHR ''/'' \<notin> set t" and "3 \<le> length t"
  shows "path_Clean (x @ t) = clean_prefix x @ t"
proof -
  let ?r = "hd x = CHR ''/''"
  let ?S = "split_slash x"
  let ?st = "foldl (clean_step ?r) [] (butlast ?S)"
  have hd: "hd (x @ t) = hd x"
    using assms(1) by simp
  have sp: "split_slash (x @ t) = butlast ?S @ [last ?S @ t]"
    using assms(2) by (simp add: split_slash_def split_from_append)
  have len: "3 \<le> length (last ?S @ t)"
    using assms(3) by simp
  have fo: "foldl (clean_step ?r) [] (split_slash (x @ t)) = ?st @ [last ?S @ t]"
    by (simp add: sp clean_step_plain [OF len])
  have ne: "t \<noteq> []"
    using assms(3) by auto
  show ?thesis
    using assms(1) ne
    by (simp add: path_Clean_def hd fo join_slash_snoc clean_prefix_def Let_def)
qed

lemma path_Clean_nonempty: "path_Clean p \<noteq> []"
  by (simp add: path_Clean_def Let_def)

lemma zipPath_nonempty: "zipPath conf \<noteq> []"
  by (simp add: zipPath_def path_Join_def path_Clean_nonempty)

lemma token_no_slash: "CHR ''/'' \<notin> set (rnd_Token n draws)"
proof -
  have "\<And>k. token_alphabet ! (k mod 36) \<in> set token_alphabet"
    by (rule nth_mem) (simp add: token_alphabet_def)
  moreover have "CHR ''/'' \<notin> set token_alphabet"
    by (simp add: token_alphabet_def)
  ultimately show ?thesis
    by (auto simp: rnd_Token_def)
qed

lemma zipFileName_shape:
  assumes "CHR ''/'' \<notin> set tok"
  shows "zipFileName conf a tok =
         clean_prefix (zipPath conf @ ''/'' @ strings_Title (AlbumSlug a) @ ''-'') @ tok @ ''.zip''"
proof -
  have s: "CHR ''/'' \<notin> set (tok @ ''.zip'')"
    using assms by simp
  have l: "3 \<le> length (tok @ ''.zip'')"
    by simp
  have n: "zipPath conf @ ''/'' @ strings_Title (AlbumSlug a) @ ''-'' \<noteq> []"
    by simp
  have "zipFileName conf a tok =
        path_Clean ((zipPath conf @ ''/'' @ strings_Title (AlbumSlug a) @ ''-'') @ (tok @ ''.zip''))"
    by (simp add: zipFileName_def zipBaseName_def path_Join_def zipPath_nonempty)
  also have "\<dots> = clean_prefix (zipPath conf @ ''/'' @ strings_Title (AlbumSlug a) @ ''-'') @ (tok @ ''.zip'')"
    by (rule path_Clean_append [OF n s l])
  finally show ?thesis by simp
qed

text \<open>
  C8, as stated, fails. Two download requests for album \<open>a1\<close> whose random draws differ
  can get the same token: both then create the same temporary file.
\<close>

theorem same_token_same_archive_name_counterexample:
  "entropy env0 \<noteq> entropy env_other_draw \<and>
   rnd_Token 3 (entropy env0) = ''bcd'' \<and>
   rnd_Token 3 (entropy env_other_draw) = ''bcd'' \<and>
   zipFileName conf0 album0 (rnd_Token 3 (entropy env0)) = ''/tmp/album/Summer-bcd.zip'' \<and>
   zipFileName conf0 album0 (rnd_Token 3 (entropy env_other_draw)) = ''/tmp/album/Summer-bcd.zip'' \<and>
   Create ''/tmp/album/Summer-bcd.zip''
     \<in> set (trace (DownloadAlbum env0 conf0 (good_request ''tile_500'' []) w0)) \<and>
   Create ''/tmp/album/Summer-bcd.zip''
     \<in> set (trace (DownloadAlbum env_other_draw conf0 (good_request ''tile_500'' []) w0))"
  by (simp add: env_other_draw_def env0_def conf0_def album0_def good_request_def w0_def
      photo_a_def photo_b_def eval_download eval_zip_name eval_path)

text \<open>
  C8, amended. Two archive export requests for the same album, on the same installation,
  get distinct file names exactly when their tokens are distinct: the name is a fixed
  prefix, the token and \<open>.zip\<close>. Nothing else in the handler keeps the names apart.
\<close>

theorem archive_names_differ_iff_tokens_differ:
  "(zipFileName conf a (rnd_Token 3 draws1) \<noteq> zipFileName conf a (rnd_Token 3 draws2)) =
   (rnd_Token 3 draws1 \<noteq> rnd_Token 3 draws2)"
  by (simp add: zipFileName_shape token_no_slash)

subsection \<open>The endpoint without an authorization check\<close>

text \<open>
  C10. GET /api/v1/albums/:uid calls no authorization check: what it adds to the trace is
  decided by the album query for the \<open>uid\<close> parameter alone, so two requests with the
  same answer of that query get the same response whatever their session or tokens. Every
  other album endpoint rejects first: the eight endpoints under /api/v1/albums answer 401
  to an unauthorized request and do nothing else, the download and the thumbnail endpoint
  answer 403 to an invalid token and do nothing else.
\<close>

theorem get_album_has_no_authorization_check:
  "new_events w (GetAlbum env conf c w) =
     (case query_AlbumByUID env (Param c ''uid'') of
        Inl err \<Rightarrow> [AbortWithStatusJSON 404 ErrAlbumNotFound]
      | Inr m \<Rightarrow> [JSON 200 (AlbumJSON m)]) \<and>
   (query_AlbumByUID env (Param c ''uid'') = query_AlbumByUID env' (Param c' ''uid'') \<longrightarrow>
      GetAlbum env conf c w = GetAlbum env' conf' c' w) \<and>
   (Unauthorized env c conf \<longrightarrow>
      GetAlbums env conf c w = emit (AbortWithStatusJSON 401 ErrUnauthorized) w \<and>
      CreateAlbum env conf c w = emit (AbortWithStatusJSON 401 ErrUnauthorized) w \<and>
      UpdateAlbum env conf c w = emit (AbortWithStatusJSON 401 ErrUnauthorized) w \<and>
      DeleteAlbum env conf c w = emit (AbortWithStatusJSON 401 ErrUnauthorized) w \<and>
      LikeAlbum env conf c w = emit (AbortWithStatusJSON 401 ErrUnauthorized) w \<and>
      DislikeAlbum env conf c w = emit (AbortWithStatusJSON 401 ErrUnauthorized) w \<and>
      AddPhotosToAlbum env conf c w = emit (AbortWithStatusJSON 401 ErrUnauthorized) w \<and>
      RemovePhotosFromAlbum env conf c w = emit (AbortWithStatusJSON 401 ErrUnauthorized) w) \<and>
   (InvalidDownloadToken env c conf \<longrightarrow>
      DownloadAlbum env conf c w = emit (Data 403 ''image/svg+xml'' (Icon brokenIconSvg)) w) \<and>
   (InvalidToken env c conf \<longrightarrow>
      AlbumThumbnail env conf c w = emit (Data 403 ''image/svg+xml'' (Icon brokenIconSvg)) w)"
proof (intro conjI impI)
  show "new_events w (GetAlbum env conf c w) =
     (case query_AlbumByUID env (Param c ''uid'') of
        Inl err \<Rightarrow> [AbortWithStatusJSON 404 ErrAlbumNotFound]
      | Inr m \<Rightarrow> [JSON 200 (AlbumJSON m)])"
    by (simp add: GetAlbum_def new_events_def emit_def split: sum.splits)
next
  assume "query_AlbumByUID env (Param c ''uid'') = query_AlbumByUID env' (Param c' ''uid'')"
  then show "GetAlbum env conf c w = GetAlbum env' conf' c' w"
    by (simp add: GetAlbum_def)
next
  assume u: "Unauthorized env c conf"
  show "GetAlbums env conf c w = emit (AbortWithStatusJSON 401 ErrUnauthorized) w"
    using u by (simp add: GetAlbums_def)
  show "CreateAlbum env conf c w = emit (AbortWithStatusJSON 401 ErrUnauthorized) w"
    using u by (simp add: CreateAlbum_def)
  show "UpdateAlbum env conf c w = emit (AbortWithStatusJSON 401 ErrUnauthorized) w"
    using u by (simp add: UpdateAlbum_def)
  show "DeleteAlbum env conf c w = emit (AbortWithStatusJSON 401 ErrUnauthorized) w"
    using u by (simp add: DeleteAlbum_def)
  show "LikeAlbum env conf c w = emit (AbortWithStatusJSON 401 ErrUnauthorized) w"
    using u by (simp add: LikeAlbum_def)
  show "DislikeAlbum env conf c w = emit (AbortWithStatusJSON 401 ErrUnauthorized) w"
    using u by (simp add: DislikeAlbum_def)
  show "AddPhotosToAlbum env conf c w = emit (AbortWithStatusJSON 401 ErrUnauthorized) w"
    using u by (simp add: AddPhotosToAlbum_def)
  show "RemovePhotosFromAlbum env conf c w = emit (AbortWithStatusJSON 401 ErrUnauthorized) w"
    using u by (simp add: RemovePhotosFromAlbum_def)
next
  assume "InvalidDownloadToken env c conf"
  then show "DownloadAlbum env conf c w = emit (Data 403 ''image/svg+xml'' (Icon brokenIconSvg)) w"
    by (simp add: DownloadAlbum_def)
next
  assume "InvalidToken env c conf"
  then show "AlbumThumbnail env conf c w = emit (Data 403 ''image/svg+xml'' (Icon brokenIconSvg)) w"
    by (simp add: AlbumThumbnail_def)
qed

theorem get_album_has_no_authorization_check_witness:
  "Unauthorized env0 anonymous_request conf0 \<and>
   InvalidToken env0 anonymous_request conf0 \<and>
   InvalidDownloadToken env0 anonymous_request conf0 \<and>
   \<not> Unauthorized env0 (good_request ''tile_500'' []) conf0 \<and>
   query_AlbumByUID env0 (Param anonymous_request ''uid'') =
     query_AlbumByUID env0 (Param (good_request ''tile_500'' []) ''uid'') \<and>
   GetAlbum env0 conf0 anonymous_request w0 = GetAlbum env0 conf0 (good_request ''tile_500'' []) w0 \<and>
   new_events w0 (GetAlbum env0 conf0 anonymous_request w0) = [JSON 200 (AlbumJSON album0)] \<and>
   new_events w0 (GetAlbums env0 conf0 anonymous_request w0) =
     [AbortWithStatusJSON 401 ErrUnauthorized] \<and>
   new_events w0 (CreateAlbum env0 conf0 anonymous_request w0) =
     [AbortWithStatusJSON 401 ErrUnauthorized] \<and>
   new_events w0 (UpdateAlbum env0 conf0 anonymous_request w0) =
     [AbortWithStatusJSON 401 ErrUnauthorized] \<and>
   new_events w0 (DeleteAlbum env0 conf0 anonymous_request w0) =
     [AbortWithStatusJSON 401 ErrUnauthorized] \<and>
   new_events w0 (LikeAlbum env0 conf0 anonymous_request w0) =
     [AbortWithStatusJSON 401 ErrUnauthorized] \<and>
   new_events w0 (DislikeAlbum env0 conf0 anonymous_request w0) =
     [AbortWithStatusJSON 401 ErrUnauthorized] \<and>
   new_events w0 (AddPhotosToAlbum env0 conf0 anonymous_request w0) =
     [AbortWithStatusJSON 401 ErrUnauthorized] \<and>
   new_events w0 (RemovePhotosFromAlbum env0 conf0 anonymous_request w0) =
     [AbortWithStatusJSON 401 ErrUnauthorized] \<and>
   new_events w0 (DownloadAlbum env0 conf0 anonymous_request w0) =
     [Data 403 ''image/svg+xml'' (Icon brokenIconSvg)] \<and>
   new_events w0 (AlbumThumbnail env0 conf0 anonymous_request w0) =
     [Data 403 ''image/svg+xml'' (Icon brokenIconSvg)]"
proof -
  have u: "Unauthorized env0 anonymous_request conf0"
    by (simp add: env0_def anonymous_request_def)
  have t: "InvalidToken env0 anonymous_request conf0"
    by (simp add: env0_def anonymous_request_def Param_def)
  have d: "InvalidDownloadToken env0 anonymous_request conf0"
    by (simp add: env0_def anonymous_request_def Query_def)
  have g: "\<not> Unauthorized env0 (good_request ''tile_500'' []) conf0"
    by (simp add: env0_def good_request_def)
  have q: "query_AlbumByUID env0 (Param anonymous_request ''uid'') =
     query_AlbumByUID env0 (Param (good_request ''tile_500'' []) ''uid'')"
    by (simp add: anonymous_request_def good_request_def Param_def)
  have a: "query_AlbumByUID env0 (Param anonymous_request ''uid'') = Inr album0"
    by (simp add: env0_def anonymous_request_def Param_def)
  note run = get_album_has_no_authorization_check [of w0 env0 conf0 anonymous_request env0
      "good_request ''tile_500'' []" conf0]
  from run have "new_events w0 (GetAlbum env0 conf0 anonymous_request w0) =
     (case query_AlbumByUID env0 (Param anonymous_request ''uid'') of
        Inl err \<Rightarrow> [AbortWithStatusJSON 404 ErrAlbumNotFound]
      | Inr m \<Rightarrow> [JSON 200 (AlbumJSON m)])"
    by (rule conjunct1)
  then have r1: "new_events w0 (GetAlbum env0 conf0 anonymous_request w0) =
     [JSON 200 (AlbumJSON album0)]"
    by (simp add: a)
  from run q have r2: "GetAlbum env0 conf0 anonymous_request w0 =
     GetAlbum env0 conf0 (good_request ''tile_500'' []) w0"
    by blast
  from run u have r3:
    "GetAlbums env0 conf0 anonymous_request w0 = emit (AbortWithStatusJSON 401 ErrUnauthorized) w0"
    "CreateAlbum env0 conf0 anonymous_request w0 = emit (AbortWithStatusJSON 401 ErrUnauthorized) w0"
    "UpdateAlbum env0 conf0 anonymous_request w0 = emit (AbortWithStatusJSON 401 ErrUnauthorized) w0"
    "DeleteAlbum env0 conf0 anonymous_request w0 = emit (AbortWithStatusJSON 401 ErrUnauthorized) w0"
    "LikeAlbum env0 conf0 anonymous_request w0 = emit (AbortWithStatusJSON 401 ErrUnauthorized) w0"
    "DislikeAlbum env0 conf0 anonymous_request w0 = emit (AbortWithStatusJSON 401 ErrUnauthorized) w0"
    "AddPhotosToAlbum env0 conf0 anonymous_request w0 = emit (AbortWithStatusJSON 401 ErrUnauthorized) w0"
    "RemovePhotosFromAlbum env0 conf0 anonymous_request w0 = emit (AbortWithStatusJSON 401 ErrUnauthorized) w0"
    by blast+
  from run d have r4: "DownloadAlbum env0 conf0 anonymous_request w0 =
     emit (Data 403 ''image/svg+xml'' (Icon brokenIconSvg)) w0"
    by blast
  from run t have r5: "AlbumThumbnail env0 conf0 anonymous_request w0 =
     emit (Data 403 ''image/svg+xml'' (Icon brokenIconSvg)) w0"
    by blast
  show ?thesis
    unfolding r3 r4 r5
    using u t d g q r1 r2 by (simp add: new_events_def emit_def)
qed

end
